theory Spec2Isabelle
  imports Complex_Main "HOL-Library.Sublist"
begin

section \<open>Numbers, vectors and the world\<close>

text \<open>
  The simulation core of \<^verbatim>\<open>src/app/ant-simulation/ant-simulation.ts\<close> is embedded
  function by function. A TypeScript \<^verbatim>\<open>number\<close> is modelled as a real number (or as an
  integer where the code only ever holds an integer: grid dimensions, cell indices,
  counters), so rounding, \<^verbatim>\<open>NaN\<close> and the infinities of IEEE arithmetic are outside the
  model, as is the single-precision rounding of a \<^verbatim>\<open>Float32Array\<close> store.
\<close>

record Vector2 =
  vx :: real
  vy :: real

record WorldDimensions =
  width :: real
  height :: real

definition WORLD_DIMENSIONS :: WorldDimensions where
  [simp]: "WORLD_DIMENSIONS = \<lparr>width = 120, height = 80\<rparr>"

definition NEST_RADIUS :: real where [simp]: "NEST_RADIUS = 4"
definition FOOD_RADIUS_DEFAULT :: real where [simp]: "FOOD_RADIUS_DEFAULT = 3"
definition FOOD_CAPACITY_DEFAULT :: real where [simp]: "FOOD_CAPACITY_DEFAULT = 250"
definition FOOD_DEPLETION_DEFAULT :: real where [simp]: "FOOD_DEPLETION_DEFAULT = 0.05"
definition PHEROMONE_CELL_SIZE :: real where [simp]: "PHEROMONE_CELL_SIZE = 1"
definition SIMULATION_STEP :: real where [simp]: "SIMULATION_STEP = 0.05"
definition MAX_FRAME_DELTA :: real where [simp]: "MAX_FRAME_DELTA = 0.5"
definition FOOD_RETURN_TIMEOUT :: real where [simp]: "FOOD_RETURN_TIMEOUT = 35"
definition NEST_SIGNAL_DURATION :: real where [simp]: "NEST_SIGNAL_DURATION = 6"
definition NEST_SIGNAL_DEPOSIT_INTERVAL :: real where [simp]: "NEST_SIGNAL_DEPOSIT_INTERVAL = 0.15"
definition NEST_SIGNAL_STRENGTH :: real where [simp]: "NEST_SIGNAL_STRENGTH = 0.45"
definition NEST_SIGNAL_DECAY_RATE :: real where [simp]: "NEST_SIGNAL_DECAY_RATE = 0.28"
definition MAX_FOOD_SOURCES :: int where [simp]: "MAX_FOOD_SOURCES = 5"
definition FOOD_RESPAWN_MIN_DELAY :: real where [simp]: "FOOD_RESPAWN_MIN_DELAY = 18"
definition FOOD_RESPAWN_MAX_DELAY :: real where [simp]: "FOOD_RESPAWN_MAX_DELAY = 32"

text \<open>The component's \<^verbatim>\<open>readonly world = WORLD_DIMENSIONS\<close>.\<close>

definition world :: WorldDimensions where
  "world = WORLD_DIMENSIONS"

subsection \<open>The arithmetic of the platform\<close>

text \<open>\<^verbatim>\<open>Math.trunc\<close>, the rounding behind the remainder operator.\<close>

definition js_trunc :: "real \<Rightarrow> int" where
  "js_trunc a = (if 0 \<le> a then \<lfloor>a\<rfloor> else \<lceil>a\<rceil>)"

text \<open>The remainder operator \<^verbatim>\<open>a % b\<close>: the result takes the sign of the dividend.\<close>

definition js_rem :: "real \<Rightarrow> real \<Rightarrow> real" where
  "js_rem a b = a - b * of_int (js_trunc (a / b))"

definition hypot :: "real \<Rightarrow> real \<Rightarrow> real" where
  "hypot a b = sqrt (a * a + b * b)"

text \<open>\<^verbatim>\<open>Math.atan2(b, a)\<close> on the reals (signed zeros are not modelled).\<close>

definition atan2 :: "real \<Rightarrow> real \<Rightarrow> real" where
  "atan2 b a =
     (if 0 < a then arctan (b / a)
      else if a < 0 then (if 0 \<le> b then arctan (b / a) + pi else arctan (b / a) - pi)
      else if 0 < b then pi / 2
      else if b < 0 then - (pi / 2)
      else 0)"

section \<open>Pheromone grids\<close>

text \<open>
  \<^verbatim>\<open>interface PheromoneGrid { columns; rows; cellSize; values: Float32Array }\<close>.
  The row-major array is a list. A typed array ignores a store beyond its length, as
  list update does; a read beyond its length gives \<^verbatim>\<open>undefined\<close>, which is \<open>None\<close> in
  \<open>sampleGridValue\<close> below.
\<close>

record PheromoneGrid =
  columns :: int
  rows :: int
  cellSize :: real
  cells :: "real list"

record GridCell =
  index :: int
  weight :: real

definition sampleGridCell :: "PheromoneGrid \<Rightarrow> Vector2 \<Rightarrow> GridCell" where
  "sampleGridCell grid pos =
     (let col = \<lfloor>vx pos / cellSize grid\<rfloor>;
          row = \<lfloor>vy pos / cellSize grid\<rfloor>
      in if col < 0 \<or> row < 0 \<or> col \<ge> columns grid \<or> row \<ge> rows grid
         then \<lparr>index = -1, weight = 0\<rparr>
         else \<lparr>index = row * columns grid + col, weight = 1\<rparr>)"

definition sampleGridValue :: "PheromoneGrid \<Rightarrow> Vector2 \<Rightarrow> real option" where
  "sampleGridValue grid pos =
     (let cell = sampleGridCell grid pos
      in if index cell < 0 then Some 0
         else if nat (index cell) < length (cells grid) then Some (cells grid ! nat (index cell))
         else None)"

definition depositPheromone :: "PheromoneGrid \<Rightarrow> Vector2 \<Rightarrow> real \<Rightarrow> PheromoneGrid" where
  "depositPheromone grid pos amount =
     (let cell = sampleGridCell grid pos
      in if index cell < 0 then grid
         else grid\<lparr>cells := (cells grid)
                [nat (index cell) := min 1 (cells grid ! nat (index cell) + amount * weight cell)]\<rparr>)"

definition markNestSignal :: "PheromoneGrid \<Rightarrow> Vector2 \<Rightarrow> real \<Rightarrow> PheromoneGrid" where
  "markNestSignal grid pos amount =
     (let cell = sampleGridCell grid pos
      in if index cell < 0 then grid
         else grid\<lparr>cells := (cells grid)
                [nat (index cell) := min 1 (cells grid ! nat (index cell) + amount * weight cell)]\<rparr>)"

text \<open>One pass of the loop body of \<^verbatim>\<open>evaporatePheromones\<close> over a cell.\<close>

definition evaporateCell :: "real \<Rightarrow> real \<Rightarrow> real" where
  "evaporateCell factor v = (let nextValue = v * factor in if nextValue > 0.001 then nextValue else 0)"

definition evaporatePheromones :: "PheromoneGrid \<Rightarrow> real \<Rightarrow> real \<Rightarrow> PheromoneGrid" where
  "evaporatePheromones grid evaporationRate delta =
     (let factor = max 0 (1 - evaporationRate * delta)
      in grid\<lparr>cells := map (evaporateCell factor) (cells grid)\<rparr>)"

text \<open>
  A call on a grid, and a sequence of calls run in order: the three operations that
  write a grid.
\<close>

datatype GridCall =
  Deposit Vector2 real
  | MarkNest Vector2 real
  | Evaporate real real

fun runGridCall :: "PheromoneGrid \<Rightarrow> GridCall \<Rightarrow> PheromoneGrid" where
  "runGridCall grid (Deposit pos amount) = depositPheromone grid pos amount"
| "runGridCall grid (MarkNest pos amount) = markNestSignal grid pos amount"
| "runGridCall grid (Evaporate rate delta) = evaporatePheromones grid rate delta"

fun nonNegativeCall :: "GridCall \<Rightarrow> bool" where
  "nonNegativeCall (Deposit pos amount) = (0 \<le> amount)"
| "nonNegativeCall (MarkNest pos amount) = (0 \<le> amount)"
| "nonNegativeCall (Evaporate rate delta) = (0 \<le> rate \<and> 0 \<le> delta)"

definition runGridCalls :: "PheromoneGrid \<Rightarrow> GridCall list \<Rightarrow> PheromoneGrid" where
  "runGridCalls grid calls = foldl runGridCall grid calls"

definition unitCells :: "PheromoneGrid \<Rightarrow> bool" where
  "unitCells grid = list_all (\<lambda>v. 0 \<le> v \<and> v \<le> 1) (cells grid)"

section \<open>Angles and world geometry\<close>

definition wrapAngle :: "real \<Rightarrow> real" where
  "wrapAngle angle = (let twoPi = pi * 2 in js_rem (js_rem angle twoPi + twoPi) twoPi)"

text \<open>
  The two loops of \<^verbatim>\<open>normalizeAngle\<close>, one after the other: subtract a turn while the
  angle is above \<open>pi\<close>, then add a turn while it is below \<open>- pi\<close>.
\<close>

function normalizeAngleDown :: "real \<Rightarrow> real" where
  "normalizeAngleDown angle = (if angle > pi then normalizeAngleDown (angle - pi * 2) else angle)"
  by pat_completeness auto
termination
proof (relation "measure (\<lambda>angle. nat \<lceil>(angle - pi) / (pi * 2)\<rceil>)")
  show "wf (measure (\<lambda>angle. nat \<lceil>(angle - pi) / (pi * 2)\<rceil>))"
    by simp
next
  fix angle :: real
  assume gt: "pi < angle"
  have "(angle - pi * 2 - pi) / (pi * 2) = (angle - pi) / (pi * 2) - 1"
    by (simp add: field_simps)
  moreover have "0 < (angle - pi) / (pi * 2)"
    using gt by simp
  ultimately show "(angle - pi * 2, angle) \<in> measure (\<lambda>angle. nat \<lceil>(angle - pi) / (pi * 2)\<rceil>)"
    by (simp add: ceiling_diff_one)
qed

function normalizeAngleUp :: "real \<Rightarrow> real" where
  "normalizeAngleUp angle = (if angle < - pi then normalizeAngleUp (angle + pi * 2) else angle)"
  by pat_completeness auto
termination
proof (relation "measure (\<lambda>angle. nat \<lceil>(- pi - angle) / (pi * 2)\<rceil>)")
  show "wf (measure (\<lambda>angle. nat \<lceil>(- pi - angle) / (pi * 2)\<rceil>))"
    by simp
next
  fix angle :: real
  assume lt: "angle < - pi"
  have "(- pi - (angle + pi * 2)) / (pi * 2) = (- pi - angle) / (pi * 2) - 1"
    by (simp add: field_simps)
  moreover have "0 < (- pi - angle) / (pi * 2)"
    using lt by simp
  ultimately show "(angle + pi * 2, angle) \<in> measure (\<lambda>angle. nat \<lceil>(- pi - angle) / (pi * 2)\<rceil>)"
    by (simp add: ceiling_diff_one)
qed

declare normalizeAngleDown.simps [simp del]
declare normalizeAngleUp.simps [simp del]

definition normalizeAngle :: "real \<Rightarrow> real" where
  "normalizeAngle angle = normalizeAngleUp (normalizeAngleDown angle)"

definition interpolateAngle :: "real \<Rightarrow> real \<Rightarrow> real \<Rightarrow> real" where
  "interpolateAngle fromAngle toAngle bias =
     (let difference = normalizeAngle (toAngle - fromAngle)
      in fromAngle + difference * min 1 (max 0 bias))"

definition clampToWorld :: "Vector2 \<Rightarrow> Vector2" where
  "clampToWorld pos =
     \<lparr>vx = max 0 (min (width world) (vx pos)), vy = max 0 (min (height world) (vy pos))\<rparr>"

definition getWorldCenter :: Vector2 where
  "getWorldCenter = \<lparr>vx = width world / 2, vy = height world / 2\<rparr>"

text \<open>The margin is a parameter with a default in the source (0.6 and 0); callers pass it here.\<close>

definition isAtWorldEdge :: "Vector2 \<Rightarrow> real \<Rightarrow> bool" where
  "isAtWorldEdge pos margin =
     (vx pos \<le> margin \<or> vy pos \<le> margin \<or>
      vx pos \<ge> width world - margin \<or> vy pos \<ge> height world - margin)"

definition isInsideWorld :: "Vector2 \<Rightarrow> real \<Rightarrow> bool" where
  "isInsideWorld pos margin =
     (vx pos \<ge> margin \<and> vy pos \<ge> margin \<and>
      vx pos \<le> width world - margin \<and> vy pos \<le> height world - margin)"

definition projectMove :: "Vector2 \<Rightarrow> real \<Rightarrow> real \<Rightarrow> Vector2" where
  "projectMove origin dir len =
     \<lparr>vx = vx origin + cos dir * len, vy = vy origin + sin dir * len\<rparr>"

definition distance :: "Vector2 \<Rightarrow> Vector2 \<Rightarrow> real" where
  "distance a b = (let dx = vx a - vx b; dy = vy a - vy b in sqrt (dx * dx + dy * dy))"

section \<open>The simulation state\<close>

text \<open>
  The interfaces of \<^verbatim>\<open>interfaces/simulation.ts\<close>. The three interfaces with a
  \<^verbatim>\<open>position\<close> keep apart by a prefix; an ant's fields keep their names.
\<close>

record Nest =
  nest_position :: Vector2
  nest_radius :: real

record FoodSource =
  food_id :: string
  food_position :: Vector2
  food_radius :: real
  capacity :: real
  maxCapacity :: real
  depletionRate :: real

record Ant =
  ant_id :: int
  position :: Vector2
  direction :: real
  carryingFood :: bool
  speed :: real
  pheromoneCooldown :: real
  depositAccumulator :: real
  personalIntensity :: real
  lastDirection :: real
  stalledTime :: real
  carryingTime :: real
  forceReturn :: bool
  nestSignalTimer :: real
  nestSignalAccumulator :: real
  pathIntegration :: Vector2

record SimulationSettings =
  antCount :: int
  antSpeed :: real
  pheromoneInfluence :: real
  randomness :: real
  evaporationRate :: real
  depositionRate :: real
  timeScale :: real
  allowFoodDepletion :: bool
  depletionMultiplier :: real
  settings_world :: WorldDimensions

record SimulationStats =
  deliveredFood :: int
  elapsedSeconds :: real

record SimulationState =
  nest :: Nest
  ants :: "Ant list"
  foodSources :: "FoodSource list"
  homePheromones :: PheromoneGrid
  foodPheromones :: PheromoneGrid
  nestSignals :: PheromoneGrid
  stats :: SimulationStats
  foodRespawnTimer :: real

record AntSpawnConfig =
  angleSpread :: real
  directionJitter :: real

subsection \<open>The platform's sources of values\<close>

text \<open>
  \<^verbatim>\<open>Math.random()\<close> is the next element of a sequence the platform owns: \<open>randoms\<close> is
  the sequence of the values still to come, and a draw returns its head and leaves its
  tail. \<^verbatim>\<open>crypto.randomUUID\<close>, where the platform has it, is a second such sequence
  (\<open>None\<close> where it has not), and \<open>radix36\<close> is \<^verbatim>\<open>Number.prototype.toString(36)\<close>.
\<close>

record Oracle =
  randoms :: "nat \<Rightarrow> real"
  uuids :: "(nat \<Rightarrow> string) option"
  radix36 :: "real \<Rightarrow> string"

definition random :: "Oracle \<Rightarrow> real \<times> Oracle" where
  "random orc = (randoms orc 0, orc\<lparr>randoms := \<lambda>n. randoms orc (Suc n)\<rparr>)"

section \<open>Sensing\<close>

text \<open>The optional last argument of \<^verbatim>\<open>samplePheromoneDirection\<close>, each field optional.\<close>

record ProbeOptions =
  probeDistance :: "real option"
  offsets :: "real list option"
  secondaryGrid :: "PheromoneGrid option"
  secondaryWeight :: "real option"
  influenceMultiplier :: "real option"

text \<open>
  The loop over the offsets: each probe is a pair of its angle and its intensity, and is
  kept when the intensity is positive. An intensity that is not a number (a read beyond
  a grid's array) is \<open>None\<close> and fails the comparison, as in the source.
\<close>

fun probeSamples ::
  "Ant \<Rightarrow> PheromoneGrid \<Rightarrow> PheromoneGrid option \<Rightarrow> real \<Rightarrow> real \<Rightarrow> real list \<Rightarrow> (real \<times> real) list"
where
  "probeSamples ant grid secondary secWeight probeDist [] = []"
| "probeSamples ant grid secondary secWeight probeDist (offset # rest) =
     (let angle = direction ant + offset;
          samplePoint = \<lparr>vx = vx (position ant) + cos angle * probeDist,
                         vy = vy (position ant) + sin angle * probeDist\<rparr>;
          intensity0 = sampleGridValue grid samplePoint;
          intensity =
            (case secondary of
               Some grid2 \<Rightarrow>
                 if secWeight > 0
                 then (case (intensity0, sampleGridValue grid2 samplePoint) of
                         (Some a, Some b) \<Rightarrow> Some (a + b * secWeight)
                       | _ \<Rightarrow> None)
                 else intensity0
             | None \<Rightarrow> intensity0)
      in (case intensity of
            Some i \<Rightarrow> if i > 0 then [(angle, i)] else []
          | None \<Rightarrow> [])
         @ probeSamples ant grid secondary secWeight probeDist rest)"

text \<open>
  \<^verbatim>\<open>samples.sort((a, b) => b.intensity - a.intensity)\<close> is a stable sort by falling
  intensity; \<open>sort_key\<close> is a stable sort by rising key.
\<close>

definition samplePheromoneDirection ::
  "Ant \<Rightarrow> PheromoneGrid \<Rightarrow> SimulationSettings \<Rightarrow> ProbeOptions option \<Rightarrow> real option"
where
  "samplePheromoneDirection ant grid settings options =
     (let spread = pi / 3;
          offs = (case Option.bind options offsets of Some os \<Rightarrow> os | None \<Rightarrow> [- spread, 0, spread]);
          probeDist = (case Option.bind options probeDistance of Some d \<Rightarrow> d | None \<Rightarrow> 4);
          secondary = Option.bind options secondaryGrid;
          secWeight = (case Option.bind options secondaryWeight of Some w \<Rightarrow> w | None \<Rightarrow> 0);
          samples = probeSamples ant grid secondary secWeight probeDist offs
      in if samples = [] then None
         else
           (let strongest = hd (sort_key (\<lambda>sample. - snd sample) samples);
                alpha = max 0 (pheromoneInfluence settings)
                  * (case Option.bind options influenceMultiplier of Some m \<Rightarrow> m | None \<Rightarrow> 1);
                bias = alpha / (alpha + 1);
                weightedAngle = interpolateAngle (direction ant) (fst strongest) bias
            in Some weightedAngle))"

section \<open>Food sources\<close>

text \<open>
  \<^verbatim>\<open>findFoodSource\<close> returns a reference to the first source in range that has food left;
  the reference is the source's place in the list.
\<close>

fun findFoodSourceIn :: "FoodSource list \<Rightarrow> Vector2 \<Rightarrow> nat option" where
  "findFoodSourceIn [] pos = None"
| "findFoodSourceIn (source # rest) pos =
     (if distance pos (food_position source) \<le> food_radius source \<and> capacity source > 0
      then Some 0
      else map_option Suc (findFoodSourceIn rest pos))"

definition findFoodSource :: "SimulationState \<Rightarrow> Vector2 \<Rightarrow> nat option" where
  "findFoodSource state pos = findFoodSourceIn (foodSources state) pos"

text \<open>The callback of the filter in \<^verbatim>\<open>handleFoodDepletion\<close>: what it does to a source, and whether it keeps it.\<close>

definition depleteSource :: "bool \<Rightarrow> real \<Rightarrow> real \<Rightarrow> FoodSource \<Rightarrow> FoodSource" where
  "depleteSource passiveEnabled multiplier delta source =
     (if passiveEnabled \<and> capacity source > 0
      then (let depletion = depletionRate source * multiplier * delta
            in source\<lparr>capacity := max 0 (capacity source - depletion)\<rparr>)
      else source)"

definition handleFoodDepletion :: "SimulationState \<Rightarrow> SimulationSettings \<Rightarrow> real \<Rightarrow> SimulationState" where
  "handleFoodDepletion state settings delta =
     (let passiveEnabled = allowFoodDepletion settings;
          multiplier = max 0 (depletionMultiplier settings)
      in state\<lparr>foodSources :=
           filter (\<lambda>source. capacity source > 0.1)
             (map (depleteSource passiveEnabled multiplier delta) (foodSources state))\<rparr>)"

definition reinforceSource :: "real \<Rightarrow> PheromoneGrid \<Rightarrow> FoodSource \<Rightarrow> PheromoneGrid" where
  "reinforceSource baseAmount grid source =
     (if capacity source \<le> 0 then grid
      else
        (let grid1 = depositPheromone grid (food_position source) baseAmount;
             ringSamples = max 8 \<lceil>food_radius source * 6\<rceil>;
             innerRadius = max 0.4 (food_radius source * 0.45);
             outerRadius = max innerRadius (food_radius source * 0.9)
         in foldl
              (\<lambda>g i.
                 (let angle = (pi * 2 * real i) / real_of_int ringSamples;
                      innerPoint = \<lparr>vx = vx (food_position source) + cos angle * innerRadius,
                                    vy = vy (food_position source) + sin angle * innerRadius\<rparr>;
                      outerPoint = \<lparr>vx = vx (food_position source) + cos angle * outerRadius,
                                    vy = vy (food_position source) + sin angle * outerRadius\<rparr>
                  in depositPheromone (depositPheromone g innerPoint (baseAmount * 0.6))
                       outerPoint (baseAmount * 0.4)))
              grid1 [0 ..< nat ringSamples]))"

definition reinforceFoodSources :: "PheromoneGrid \<Rightarrow> FoodSource list \<Rightarrow> real \<Rightarrow> PheromoneGrid" where
  "reinforceFoodSources grid sources delta =
     (if sources = [] then grid
      else (let baseAmount = max 0.08 (4 * delta) in foldl (reinforceSource baseAmount) grid sources))"

section \<open>The ant update\<close>

text \<open>
  \<^verbatim>\<open>updateAnt\<close> mutates the ant, the grids, the food sources and the statistics in
  place; here it takes the ant, the state and the platform's sequences and returns all
  three. It is written as its seven consecutive blocks.
\<close>

text \<open>Lines 427 to 436: the carry timer and the forced return.\<close>

definition updateAnt_carry :: "Ant \<Rightarrow> real \<Rightarrow> Ant" where
  "updateAnt_carry ant delta =
     (if carryingFood ant
      then (let ant1 = ant\<lparr>carryingTime := carryingTime ant + delta\<rparr>
            in if \<not> forceReturn ant1 \<and> carryingTime ant1 \<ge> FOOD_RETURN_TIMEOUT
               then ant1\<lparr>forceReturn := True, carryingTime := 0\<rparr>
               else ant1)
      else ant\<lparr>carryingTime := 0, forceReturn := False\<rparr>)"

text \<open>Lines 438 to 496: the new heading.\<close>

definition updateAnt_heading ::
  "Ant \<Rightarrow> SimulationState \<Rightarrow> SimulationSettings \<Rightarrow> Oracle \<Rightarrow> Ant \<times> Oracle"
where
  "updateAnt_heading ant state settings orc =
     (let targetGrid = (if carryingFood ant then homePheromones state else foodPheromones state);
          homeVector = \<lparr>vx = - vx (pathIntegration ant), vy = - vy (pathIntegration ant)\<rparr>;
          homeVectorLength = hypot (vx homeVector) (vy homeVector);
          homeAngle = (if homeVectorLength > 0.001
                       then Some (atan2 (vy homeVector) (vx homeVector)) else None);
          pheromoneDirection = samplePheromoneDirection ant targetGrid settings
            (if carryingFood ant
             then Some \<lparr>probeDistance = Some (if forceReturn ant then 6 else 5),
                        offsets = (if forceReturn ant
                                   then Some [- pi / 2.8, - pi / 5, 0, pi / 5, pi / 2.8]
                                   else None),
                        secondaryGrid = Some (nestSignals state),
                        secondaryWeight = Some (if forceReturn ant then 0.9 else 0.55),
                        influenceMultiplier = Some (if forceReturn ant then 1.65 else 1.25)\<rparr>
             else None);
          randomnessFactor = (if forceReturn ant then 0.35 else 1);
          (r, orc1) = random orc;
          randomJitter = (r - 0.5) * randomness settings * randomnessFactor;
          desired0 =
            (if carryingFood ant
             then (case pheromoneDirection of
                     Some pd \<Rightarrow>
                       (let influence = (if forceReturn ant
                                         then min 1 (pheromoneInfluence settings * 1.35)
                                         else pheromoneInfluence settings)
                        in interpolateAngle (direction ant) pd influence)
                   | None \<Rightarrow>
                       (let localFoodSignal = sampleGridValue (foodPheromones state) (position ant);
                            d = (if (case localFoodSignal of Some l \<Rightarrow> l \<le> 0.02 | None \<Rightarrow> False)
                                 then (let fallbackBias = (if forceReturn ant then 0.55 else 0.2)
                                       in interpolateAngle (direction ant)
                                            (case homeAngle of Some h \<Rightarrow> h | None \<Rightarrow> direction ant)
                                            fallbackBias)
                                 else direction ant)
                        in d + randomJitter * (if forceReturn ant then 0.4 else 1)))
             else (case pheromoneDirection of
                     Some pd \<Rightarrow> interpolateAngle (direction ant) pd (pheromoneInfluence settings)
                   | None \<Rightarrow> direction ant + randomJitter));
          desired1 = desired0 + randomJitter * (if forceReturn ant then 0.1 else 0.25);
          desired2 =
            (case homeAngle of
               Some h \<Rightarrow>
                 if carryingFood ant
                 then (let integrationBias = (if forceReturn ant then 0.55 else 0.2)
                       in interpolateAngle desired1 h integrationBias)
                 else desired1
             | None \<Rightarrow> desired1)
      in (ant\<lparr>direction := wrapAngle desired2\<rparr>, orc1))"

text \<open>
  The retry loop of \<^verbatim>\<open>advanceAntWithinWorld\<close>: \<open>attempt\<close> counts up to \<open>maxAttempts\<close>;
  the loop's variables are the heading and the projected position.
\<close>

function advanceRetry ::
  "nat \<Rightarrow> Vector2 \<Rightarrow> Vector2 \<Rightarrow> real \<Rightarrow> real \<Rightarrow> Vector2 \<Rightarrow> Oracle \<Rightarrow> real \<times> Vector2 \<times> Oracle"
where
  "advanceRetry attempt origin preferredTarget moveDistance dir nextPosition orc =
     (if \<not> isInsideWorld nextPosition 0.05 \<and> attempt < 6
      then
        (let inwardAngle = atan2 (vy preferredTarget - vy origin) (vx preferredTarget - vx origin);
             (r1, orc1) = random orc;
             bias = 0.55 + r1 * 0.35;
             (r2, orc2) = random orc1;
             jitter = (r2 - 0.5) * pi * 0.25;
             dir1 = wrapAngle (interpolateAngle dir inwardAngle bias + jitter)
         in advanceRetry (attempt + 1) origin preferredTarget moveDistance dir1
              (projectMove origin dir1 moveDistance) orc2)
      else (dir, nextPosition, orc))"
  by pat_completeness auto
termination
  by (relation "measure (\<lambda>(attempt, _). 6 - attempt)") (auto simp: Let_def split: prod.splits)

declare advanceRetry.simps [simp del]

definition advanceAntWithinWorld ::
  "Ant \<Rightarrow> real \<Rightarrow> Vector2 \<Rightarrow> Oracle \<Rightarrow> Ant \<times> real \<times> Oracle"
where
  "advanceAntWithinWorld ant moveDistance nestPosition orc =
     (if moveDistance \<le> 0 then (ant, 0, orc)
      else
        (let origin = position ant;
             nextPosition0 = projectMove origin (direction ant) moveDistance;
             preferredTarget = (if carryingFood ant then nestPosition else getWorldCenter);
             (dir, nextPosition1, orc1) =
               advanceRetry 0 origin preferredTarget moveDistance (direction ant) nextPosition0 orc;
             nextPosition2 = (if \<not> isInsideWorld nextPosition1 0.05
                              then clampToWorld nextPosition1 else nextPosition1);
             ant1 = ant\<lparr>direction := dir, position := nextPosition2\<rparr>
         in (ant1, distance origin (position ant1), orc1)))"

text \<open>Lines 498 to 510: the move and the path integration, clamped in length.\<close>

definition updateAnt_move ::
  "Ant \<Rightarrow> SimulationSettings \<Rightarrow> real \<Rightarrow> Vector2 \<Rightarrow> Oracle \<Rightarrow> Ant \<times> real \<times> Oracle"
where
  "updateAnt_move ant settings delta nestPosition orc =
     (let previousPosition = position ant;
          moveDistance = antSpeed settings * delta;
          (ant1, movedDistance, orc1) = advanceAntWithinWorld ant moveDistance nestPosition orc;
          path1 = \<lparr>vx = vx (pathIntegration ant1) + (vx (position ant1) - vx previousPosition),
                   vy = vy (pathIntegration ant1) + (vy (position ant1) - vy previousPosition)\<rparr>;
          maxPathLength = max (width world) (height world) * 1.5;
          currentPathLength = hypot (vx path1) (vy path1);
          path2 = (if currentPathLength > maxPathLength
                   then (let scale = maxPathLength / currentPathLength
                         in \<lparr>vx = vx path1 * scale, vy = vy path1 * scale\<rparr>)
                   else path1)
      in (ant1\<lparr>pathIntegration := path2\<rparr>, movedDistance, orc1))"

text \<open>Lines 512 to 522: the stall timer and the escape from a world edge.\<close>

definition updateAnt_stall :: "Ant \<Rightarrow> real \<Rightarrow> real \<Rightarrow> Vector2 \<Rightarrow> Oracle \<Rightarrow> Ant \<times> Oracle" where
  "updateAnt_stall ant movedDistance delta nestPosition orc =
     (if movedDistance < 0.025
      then
        (let ant1 = ant\<lparr>stalledTime := stalledTime ant + delta\<rparr>
         in if stalledTime ant1 > 0.4 \<and> isAtWorldEdge (position ant1) 0.6
            then
              (let escapeAngle = atan2 (vy nestPosition - vy (position ant1))
                                       (vx nestPosition - vx (position ant1));
                   (r, orc1) = random orc;
                   deflect = (r - 0.5) * pi * 0.4
               in (ant1\<lparr>direction := wrapAngle (escapeAngle + deflect)\<rparr>, orc1))
            else (ant1, orc))
      else (ant\<lparr>stalledTime := 0\<rparr>, orc))"

text \<open>Lines 524 to 536: the trail deposit.\<close>

definition updateAnt_deposit ::
  "Ant \<Rightarrow> SimulationState \<Rightarrow> SimulationSettings \<Rightarrow> real \<Rightarrow> Ant \<times> SimulationState"
where
  "updateAnt_deposit ant state settings delta =
     (let depositInterval = 0.1
      in if stalledTime ant < 0.3
         then
           (let ant1 = ant\<lparr>depositAccumulator := depositAccumulator ant + delta\<rparr>
            in if depositAccumulator ant1 \<ge> depositInterval
               then
                 (let count = \<lfloor>depositAccumulator ant1 / depositInterval\<rfloor>;
                      ant2 = ant1\<lparr>depositAccumulator :=
                               depositAccumulator ant1 - depositInterval * of_int count\<rparr>;
                      amount = depositionRate settings * of_int count
                  in (ant2,
                      if carryingFood ant2
                      then state\<lparr>foodPheromones :=
                             depositPheromone (foodPheromones state) (position ant2) amount\<rparr>
                      else state\<lparr>homePheromones :=
                             depositPheromone (homePheromones state) (position ant2) amount\<rparr>))
               else (ant1, state))
         else (ant\<lparr>depositAccumulator := min (depositAccumulator ant) depositInterval\<rparr>, state))"

text \<open>Lines 538 to 550: the nest signal.\<close>

definition updateAnt_nestSignal :: "Ant \<Rightarrow> SimulationState \<Rightarrow> real \<Rightarrow> Ant \<times> SimulationState" where
  "updateAnt_nestSignal ant state delta =
     (if nestSignalTimer ant > 0
      then
        (let ant1 = ant\<lparr>nestSignalTimer := max 0 (nestSignalTimer ant - delta)\<rparr>
         in if stalledTime ant1 < 0.3
            then
              (let ant2 = ant1\<lparr>nestSignalAccumulator := nestSignalAccumulator ant1 + delta\<rparr>
               in if nestSignalAccumulator ant2 \<ge> NEST_SIGNAL_DEPOSIT_INTERVAL
                  then
                    (let count = \<lfloor>nestSignalAccumulator ant2 / NEST_SIGNAL_DEPOSIT_INTERVAL\<rfloor>;
                         ant3 = ant2\<lparr>nestSignalAccumulator :=
                                  nestSignalAccumulator ant2 - NEST_SIGNAL_DEPOSIT_INTERVAL * of_int count\<rparr>
                     in (ant3,
                         state\<lparr>nestSignals :=
                           markNestSignal (nestSignals state) (position ant3)
                             (NEST_SIGNAL_STRENGTH * of_int count)\<rparr>))
                  else (ant2, state))
            else (ant1, state))
      else (ant\<lparr>nestSignalAccumulator := 0\<rparr>, state))"

text \<open>Lines 552 to 595: delivery at the nest, or the reset at the nest and the pickup.\<close>

definition updateAnt_transition ::
  "Ant \<Rightarrow> SimulationState \<Rightarrow> SimulationSettings \<Rightarrow> Vector2 \<Rightarrow> Oracle
    \<Rightarrow> Ant \<times> SimulationState \<times> Oracle"
where
  "updateAnt_transition ant state settings nestPosition orc =
     (if carryingFood ant
      then
        (let distanceToNest = distance (position ant) nestPosition
         in if distanceToNest \<le> nest_radius (nest state)
            then
              (let ant1 = ant\<lparr>carryingFood := False, carryingTime := 0, forceReturn := False,
                               nestSignalTimer := NEST_SIGNAL_DURATION, nestSignalAccumulator := 0\<rparr>;
                   state1 = state\<lparr>stats := (stats state)
                              \<lparr>deliveredFood := deliveredFood (stats state) + 1\<rparr>\<rparr>;
                   outboundDirection = samplePheromoneDirection ant1 (foodPheromones state1) settings None;
                   (ant2, orc1) =
                     (case outboundDirection of
                        Some d \<Rightarrow> (ant1\<lparr>direction := d\<rparr>, orc)
                      | None \<Rightarrow>
                          (let nestAngle = atan2 (vy nestPosition - vy (position ant1))
                                                 (vx nestPosition - vx (position ant1));
                               (r, orc') = random orc
                           in (ant1\<lparr>direction := wrapAngle (nestAngle + pi + (r - 0.5) * pi * 0.3)\<rparr>,
                               orc')));
                   ant3 = ant2\<lparr>position := clampToWorld
                            \<lparr>vx = vx nestPosition + cos (direction ant2) * (nest_radius (nest state1) + 0.5),
                             vy = vy nestPosition + sin (direction ant2) * (nest_radius (nest state1) + 0.5)\<rparr>\<rparr>;
                   ant4 = ant3\<lparr>pathIntegration :=
                            \<lparr>vx = vx (position ant3) - vx nestPosition,
                             vy = vy (position ant3) - vy nestPosition\<rparr>\<rparr>
               in (ant4, state1, orc1))
            else (ant, state, orc))
      else
        (let distanceToNest = distance (position ant) nestPosition;
             ant1 = (if distanceToNest \<le> nest_radius (nest state)
                     then ant\<lparr>pathIntegration :=
                            \<lparr>vx = vx (position ant) - vx nestPosition,
                             vy = vy (position ant) - vy nestPosition\<rparr>\<rparr>
                     else ant)
         in (case findFoodSource state (position ant1) of
               Some k \<Rightarrow>
                 (let source = foodSources state ! k
                  in (ant1\<lparr>carryingFood := True, carryingTime := 0\<rparr>,
                      state\<lparr>foodSources := (foodSources state)
                              [k := source\<lparr>capacity := max 0 (capacity source - 1)\<rparr>]\<rparr>,
                      orc))
             | None \<Rightarrow> (ant1, state, orc))))"

definition updateAnt ::
  "Ant \<Rightarrow> SimulationState \<Rightarrow> SimulationSettings \<Rightarrow> real \<Rightarrow> Vector2 \<Rightarrow> Oracle
    \<Rightarrow> Ant \<times> SimulationState \<times> Oracle"
where
  "updateAnt ant state settings delta nestPosition orc =
     (let ant1 = updateAnt_carry ant delta;
          (ant2, orc1) = updateAnt_heading ant1 state settings orc;
          (ant3, movedDistance, orc2) = updateAnt_move ant2 settings delta nestPosition orc1;
          (ant4, orc3) = updateAnt_stall ant3 movedDistance delta nestPosition orc2;
          (ant5, state1) = updateAnt_deposit ant4 state settings delta;
          (ant6, state2) = updateAnt_nestSignal ant5 state1 delta
      in updateAnt_transition ant6 state2 settings nestPosition orc3)"

section \<open>Population, food lifecycle and the update pass\<close>

definition createAnt :: "int \<Rightarrow> Vector2 \<Rightarrow> real \<Rightarrow> real \<Rightarrow> Oracle \<Rightarrow> Ant \<times> Oracle" where
  "createAnt ident pos spread jitter orc =
     (let (r1, orc1) = random orc;
          baseAngle = r1 * pi * 2;
          (r2, orc2) = random orc1;
          dir = wrapAngle (baseAngle + (r2 - 0.5) * spread);
          (r3, orc3) = random orc2
      in (\<lparr>ant_id = ident,
           position = pos,
           direction = dir,
           carryingFood = False,
           speed = 0,
           pheromoneCooldown = 0,
           depositAccumulator = 0,
           personalIntensity = 0,
           lastDirection = dir + (r3 - 0.5) * jitter,
           stalledTime = 0,
           carryingTime = 0,
           forceReturn = False,
           nestSignalTimer = NEST_SIGNAL_DURATION,
           nestSignalAccumulator = 0,
           pathIntegration = \<lparr>vx = 0, vy = 0\<rparr>\<rparr>, orc3))"

text \<open>
  The growing loop of \<^verbatim>\<open>updateAntPopulation\<close>: the first argument is the number of
  rounds left, the second the loop counter \<open>i\<close>. The identifier is the length of the
  array at the time of the push plus \<open>i\<close>, as the source has it.
\<close>

fun pushAnts ::
  "nat \<Rightarrow> nat \<Rightarrow> Ant list \<Rightarrow> Vector2 \<Rightarrow> AntSpawnConfig \<Rightarrow> Oracle \<Rightarrow> Ant list \<times> Oracle"
where
  "pushAnts 0 i colony nestPosition config orc = (colony, orc)"
| "pushAnts (Suc left) i colony nestPosition config orc =
     (let (ant, orc1) = createAnt (int (length colony) + int i) nestPosition
                          (angleSpread config) (directionJitter config) orc
      in pushAnts left (Suc i) (colony @ [ant]) nestPosition config orc1)"

text \<open>
  \<^verbatim>\<open>state.ants.splice(targetCount)\<close> keeps the first \<open>targetCount\<close> ants; a negative
  start counts from the end of the array.
\<close>

definition updateAntPopulation ::
  "SimulationState \<Rightarrow> int \<Rightarrow> AntSpawnConfig \<Rightarrow> Oracle \<Rightarrow> SimulationState \<times> Oracle"
where
  "updateAntPopulation state targetCount config orc =
     (let currentCount = int (length (ants state))
      in if currentCount = targetCount then (state, orc)
         else if targetCount > currentCount
         then
           (let additional = targetCount - currentCount;
                (colony, orc1) = pushAnts (nat additional) 0 (ants state)
                                   (nest_position (nest state)) config orc
            in (state\<lparr>ants := colony\<rparr>, orc1))
         else
           (let start = (if targetCount < 0 then max 0 (currentCount + targetCount) else targetCount)
            in (state\<lparr>ants := take (nat start) (ants state)\<rparr>, orc)))"

text \<open>The loop of \<^verbatim>\<open>updateSimulation\<close> over the ants, in order, on the one shared state.\<close>

fun updateAnts ::
  "Ant list \<Rightarrow> Ant list \<Rightarrow> SimulationState \<Rightarrow> SimulationSettings \<Rightarrow> real \<Rightarrow> Vector2 \<Rightarrow> Oracle
    \<Rightarrow> Ant list \<times> SimulationState \<times> Oracle"
where
  "updateAnts [] updated state settings delta nestPosition orc = (updated, state, orc)"
| "updateAnts (ant # rest) updated state settings delta nestPosition orc =
     (let (ant1, state1, orc1) = updateAnt ant state settings delta nestPosition orc
      in updateAnts rest (updated @ [ant1]) state1 settings delta nestPosition orc1)"

record FoodControls =
  fc_capacity :: "real option"
  fc_radius :: "real option"
  fc_depletionRate :: "real option"

definition createFoodSource :: "FoodControls \<Rightarrow> Vector2 \<Rightarrow> Oracle \<Rightarrow> FoodSource \<times> Oracle" where
  "createFoodSource controls pos orc =
     (let cap = (case fc_capacity controls of Some c \<Rightarrow> c | None \<Rightarrow> FOOD_CAPACITY_DEFAULT);
          rad = (case fc_radius controls of Some r \<Rightarrow> r | None \<Rightarrow> FOOD_RADIUS_DEFAULT);
          rate = (case fc_depletionRate controls of Some d \<Rightarrow> d | None \<Rightarrow> FOOD_DEPLETION_DEFAULT);
          (ident, orc1) =
            (case uuids orc of
               Some supply \<Rightarrow> (supply 0, orc\<lparr>uuids := Some (\<lambda>n. supply (Suc n))\<rparr>)
             | None \<Rightarrow> (let (r, orc') = random orc in (''food-'' @ drop 2 (radix36 orc r), orc')))
      in (\<lparr>food_id = ident,
           food_position = clampToWorld pos,
           food_radius = rad,
           capacity = cap,
           maxCapacity = cap,
           depletionRate = rate\<rparr>, orc1))"

definition nextFoodRespawnDelay :: "Oracle \<Rightarrow> real \<times> Oracle" where
  "nextFoodRespawnDelay orc =
     (if FOOD_RESPAWN_MAX_DELAY \<le> FOOD_RESPAWN_MIN_DELAY then (FOOD_RESPAWN_MIN_DELAY, orc)
      else (let (r, orc1) = random orc
            in (FOOD_RESPAWN_MIN_DELAY + r * (FOOD_RESPAWN_MAX_DELAY - FOOD_RESPAWN_MIN_DELAY), orc1)))"

definition randomInt :: "int \<Rightarrow> int \<Rightarrow> Oracle \<Rightarrow> int \<times> Oracle" where
  "randomInt lo hi orc =
     (let (r, orc1) = random orc in (\<lfloor>r * of_int (hi - lo + 1)\<rfloor> + lo, orc1))"

text \<open>
  The inner loop of \<^verbatim>\<open>spawnRandomFood\<close>: up to 50 candidates, each drawn from two
  random numbers; the result is the first candidate far enough from the nest and from
  every source.
\<close>

function findFoodSpot ::
  "nat \<Rightarrow> SimulationState \<Rightarrow> real \<Rightarrow> Oracle \<Rightarrow> Vector2 option \<times> Oracle"
where
  "findFoodSpot attempts state minDistance orc =
     (if attempts < 50
      then
        (let (r1, orc1) = random orc;
             (r2, orc2) = random orc1;
             candidate = \<lparr>vx = r1 * width world, vy = r2 * height world\<rparr>
         in if distance candidate (nest_position (nest state)) < minDistance
            then findFoodSpot (attempts + 1) state minDistance orc2
            else if list_ex (\<lambda>source. distance candidate (food_position source) < food_radius source + 2)
                      (foodSources state)
            then findFoodSpot (attempts + 1) state minDistance orc2
            else (Some candidate, orc2))
      else (None, orc))"
  by pat_completeness auto
termination
  by (relation "measure (\<lambda>(attempts, _). 50 - attempts)") (auto simp: Let_def split: prod.splits)

declare findFoodSpot.simps [simp del]

fun spawnFoodLoop ::
  "nat \<Rightarrow> FoodControls \<Rightarrow> SimulationState \<Rightarrow> real \<Rightarrow> Oracle \<Rightarrow> SimulationState \<times> Oracle"
where
  "spawnFoodLoop 0 controls state minDistance orc = (state, orc)"
| "spawnFoodLoop (Suc left) controls state minDistance orc =
     (let (spot, orc1) = findFoodSpot 0 state minDistance orc
      in case spot of
           None \<Rightarrow> spawnFoodLoop left controls state minDistance orc1
         | Some pos \<Rightarrow>
             (let (source, orc2) = createFoodSource controls pos orc1
              in spawnFoodLoop left controls
                   (state\<lparr>foodSources := foodSources state @ [source]\<rparr>) minDistance orc2))"

definition spawnRandomFood ::
  "FoodControls \<Rightarrow> SimulationState \<Rightarrow> int \<Rightarrow> Oracle \<Rightarrow> SimulationState \<times> Oracle"
where
  "spawnRandomFood controls state count orc =
     (if count \<le> 0 then (state, orc)
      else (let minDistance = nest_radius (nest state) + 6
            in spawnFoodLoop (nat count) controls state minDistance orc))"

definition updateFoodRespawn ::
  "bool \<Rightarrow> FoodControls \<Rightarrow> SimulationState \<Rightarrow> real \<Rightarrow> Oracle \<Rightarrow> SimulationState \<times> Oracle"
where
  "updateFoodRespawn autoFood controls state delta orc =
     (if \<not> autoFood then (state, orc)
      else if int (length (foodSources state)) \<ge> MAX_FOOD_SOURCES
      then (let (delay, orc1) = nextFoodRespawnDelay orc
            in (state\<lparr>foodRespawnTimer := max (foodRespawnTimer state) delay\<rparr>, orc1))
      else
        (let state1 = state\<lparr>foodRespawnTimer := foodRespawnTimer state - delta\<rparr>
         in if foodRespawnTimer state1 > 0 then (state1, orc)
            else
              (let availableSlots = max 0 (MAX_FOOD_SOURCES - int (length (foodSources state1)));
                   (drawn, orc1) = randomInt 2 3 orc;
                   spawnCount = min availableSlots drawn;
                   (state2, orc2) = (if spawnCount > 0
                                     then spawnRandomFood controls state1 spawnCount orc1
                                     else (state1, orc1));
                   (delay, orc3) = nextFoodRespawnDelay orc2
               in (state2\<lparr>foodRespawnTimer := delay\<rparr>, orc3))))"

text \<open>
  One update pass on a state: the body of \<^verbatim>\<open>updateSimulation\<close> after its null check.
  The mirror of the statistics in the component's signal is for display and is left out.
\<close>

definition simulationPass ::
  "real \<Rightarrow> SimulationSettings \<Rightarrow> bool \<Rightarrow> FoodControls \<Rightarrow> SimulationState \<times> Oracle
    \<Rightarrow> SimulationState \<times> Oracle"
where
  "simulationPass delta settings autoFood controls input =
     (let (state, orc) = input;
          state1 = state\<lparr>stats := (stats state)
                     \<lparr>elapsedSeconds := elapsedSeconds (stats state) + delta\<rparr>\<rparr>;
          state2 = state1\<lparr>homePheromones :=
                     evaporatePheromones (homePheromones state1) (evaporationRate settings) delta\<rparr>;
          state3 = state2\<lparr>foodPheromones :=
                     evaporatePheromones (foodPheromones state2) (evaporationRate settings) delta\<rparr>;
          state4 = state3\<lparr>nestSignals :=
                     evaporatePheromones (nestSignals state3) NEST_SIGNAL_DECAY_RATE delta\<rparr>;
          (state5, orc1) = updateAntPopulation state4 (antCount settings)
                             \<lparr>angleSpread = pi / 12, directionJitter = 0.4\<rparr> orc;
          nestPosition = nest_position (nest state5);
          (colony, state6, orc2) = updateAnts (ants state5) [] state5 settings delta nestPosition orc1;
          state7 = handleFoodDepletion (state6\<lparr>ants := colony\<rparr>) settings delta;
          state8 = state7\<lparr>foodPheromones :=
                     reinforceFoodSources (foodPheromones state7) (foodSources state7) delta\<rparr>
      in updateFoodRespawn autoFood controls state8 delta orc2)"

section \<open>The component\<close>

datatype SimulationLifecycle = Idle | Running | Paused

text \<open>
  The fields of the component that an update pass and the frame callback read and write.
  \<open>animationRequested\<close>
  says that \<^verbatim>\<open>animationHandle\<close> holds a requested frame; \<open>platform\<close> holds the sequences
  of the platform.
\<close>

record AntSimulation =
  status :: SimulationLifecycle
  simulation :: "SimulationState option"
  activeSettings :: SimulationSettings
  autoFoodEnabled :: bool
  foodControls :: FoodControls
  animationRequested :: bool
  lastTimestamp :: "real option"
  accumulator :: real
  platform :: Oracle

definition updateSimulation :: "AntSimulation \<Rightarrow> real \<Rightarrow> SimulationSettings \<Rightarrow> AntSimulation" where
  "updateSimulation app delta settings =
     (case simulation app of
        None \<Rightarrow> app
      | Some state \<Rightarrow>
          (let (state1, orc1) = simulationPass delta settings (autoFoodEnabled app)
                                  (foodControls app) (state, platform app)
           in app\<lparr>simulation := Some state1, platform := orc1\<rparr>))"

text \<open>The state a simulation starts from.\<close>

definition createPheromoneGrid :: PheromoneGrid where
  "createPheromoneGrid =
     (let cols = \<lceil>width world / PHEROMONE_CELL_SIZE\<rceil>;
          rws = \<lceil>height world / PHEROMONE_CELL_SIZE\<rceil>
      in \<lparr>columns = cols, rows = rws, cellSize = PHEROMONE_CELL_SIZE,
          cells = replicate (nat (cols * rws)) 0\<rparr>)"

fun initialAnts :: "nat \<Rightarrow> nat \<Rightarrow> Ant list \<Rightarrow> Vector2 \<Rightarrow> Oracle \<Rightarrow> Ant list \<times> Oracle" where
  "initialAnts 0 i colony nestPosition orc = (colony, orc)"
| "initialAnts (Suc left) i colony nestPosition orc =
     (let (ant, orc1) = createAnt (int i) nestPosition (pi / 6) 0.35 orc
      in initialAnts left (Suc i) (colony @ [ant]) nestPosition orc1)"

definition createInitialState :: "SimulationSettings \<Rightarrow> Oracle \<Rightarrow> SimulationState \<times> Oracle" where
  "createInitialState settings orc =
     (let nestPosition = \<lparr>vx = width world / 2, vy = height world / 2\<rparr>;
          (colony, orc1) = initialAnts (nat (antCount settings)) 0 [] nestPosition orc;
          (delay, orc2) = nextFoodRespawnDelay orc1
      in (\<lparr>nest = \<lparr>nest_position = nestPosition, nest_radius = NEST_RADIUS\<rparr>,
           ants = colony,
           foodSources = [],
           homePheromones = createPheromoneGrid,
           foodPheromones = createPheromoneGrid,
           nestSignals = createPheromoneGrid,
           stats = \<lparr>deliveredFood = 0, elapsedSeconds = 0\<rparr>,
           foodRespawnTimer = delay\<rparr>, orc2))"

section \<open>Runs of the food lifecycle, and example inputs\<close>







definition demoSettings :: SimulationSettings where
  "demoSettings =
     \<lparr>antCount = 1, antSpeed = 7, pheromoneInfluence = 0.9, randomness = 0.7,
      evaporationRate = 0.15, depositionRate = 0.55, timeScale = 3,
      allowFoodDepletion = False, depletionMultiplier = 1,
      settings_world = WORLD_DIMENSIONS\<rparr>"

definition demoFood :: "real \<Rightarrow> FoodSource" where
  "demoFood cap =
     \<lparr>food_id = ''food-1'', food_position = \<lparr>vx = 100, vy = 40\<rparr>, food_radius = 3,
      capacity = cap, maxCapacity = 250, depletionRate = 0.05\<rparr>"

definition demoState :: "FoodSource list \<Rightarrow> SimulationState" where
  "demoState sources =
     \<lparr>nest = \<lparr>nest_position = \<lparr>vx = 60, vy = 40\<rparr>, nest_radius = NEST_RADIUS\<rparr>,
      ants = [],
      foodSources = sources,
      homePheromones = createPheromoneGrid,
      foodPheromones = createPheromoneGrid,
      nestSignals = createPheromoneGrid,
      stats = \<lparr>deliveredFood = 0, elapsedSeconds = 0\<rparr>,
      foodRespawnTimer = 18\<rparr>"

definition exampleGrid :: PheromoneGrid where
  "exampleGrid = \<lparr>columns = 2, rows = 2, cellSize = 1, cells = [0.1, 0.0015, 0.3, 0.9]\<rparr>"

definition demoOracle :: Oracle where
  "demoOracle = \<lparr>randoms = \<lambda>n. 1 / 2, uuids = None, radix36 = \<lambda>r. ''0.i''\<rparr>"

definition returningAnt :: "real \<Rightarrow> bool \<Rightarrow> Ant" where
  "returningAnt carried forced =
     \<lparr>ant_id = 0, position = \<lparr>vx = 80, vy = 40\<rparr>, direction = pi, carryingFood = True,
      speed = 0, pheromoneCooldown = 0, depositAccumulator = 0.05, personalIntensity = 0,
      lastDirection = pi, stalledTime = 0, carryingTime = carried, forceReturn = forced,
      nestSignalTimer = 0, nestSignalAccumulator = 0,
      pathIntegration = \<lparr>vx = 20, vy = 0\<rparr>\<rparr>"

definition returningMoved :: "real \<Rightarrow> bool \<Rightarrow> Ant" where
  "returningMoved carried forced =
     (returningAnt carried forced)\<lparr>position := \<lparr>vx = 79.65, vy = 40\<rparr>,
        pathIntegration := \<lparr>vx = 19.65, vy = 0\<rparr>\<rparr>"

definition foragerAnt :: Ant where
  "foragerAnt =
     \<lparr>ant_id = 1, position = \<lparr>vx = 97.5, vy = 40\<rparr>, direction = 0, carryingFood = False,
      speed = 0, pheromoneCooldown = 0, depositAccumulator = 0.05, personalIntensity = 0,
      lastDirection = 0, stalledTime = 0, carryingTime = 0, forceReturn = False,
      nestSignalTimer = 0, nestSignalAccumulator = 0,
      pathIntegration = \<lparr>vx = 37.5, vy = 0\<rparr>\<rparr>"

definition foragerMoved :: Ant where
  "foragerMoved = foragerAnt\<lparr>position := \<lparr>vx = 97.85, vy = 40\<rparr>,
          pathIntegration := \<lparr>vx = 37.85, vy = 0\<rparr>\<rparr>"

definition flagsConsistent :: "Ant \<Rightarrow> bool" where
  "flagsConsistent ant = (forceReturn ant \<longrightarrow> carryingFood ant)"

definition pathWithinBound :: "Ant \<Rightarrow> bool" where
  "pathWithinBound ant =
     (hypot (vx (pathIntegration ant)) (vy (pathIntegration ant))
        \<le> 1.5 * max (width world) (height world))"

definition nestWithinWorld :: "Nest \<Rightarrow> bool" where
  "nestWithinWorld home =
     (0 \<le> vx (nest_position home) \<and> vx (nest_position home) \<le> width world \<and>
      0 \<le> vy (nest_position home) \<and> vy (nest_position home) \<le> height world \<and>
      nest_radius home \<le> 1.5 * max (width world) (height world))"

definition trailGrid :: PheromoneGrid where
  "trailGrid = createPheromoneGrid\<lparr>cells := (cells createPheromoneGrid)[4378 := 0.5]\<rparr>"

definition trailState :: SimulationState where
  "trailState = (demoState [])\<lparr>foodPheromones := trailGrid\<rparr>"

definition arrivingAnt :: Ant where
  "arrivingAnt =
     \<lparr>ant_id = 0, position = \<lparr>vx = 55.8, vy = 40\<rparr>, direction = 0, carryingFood = True,
      speed = 0, pheromoneCooldown = 0, depositAccumulator = 0, personalIntensity = 0,
      lastDirection = 0, stalledTime = 0, carryingTime = 12, forceReturn = False,
      nestSignalTimer = 0, nestSignalAccumulator = 0,
      pathIntegration = \<lparr>vx = - 4.2, vy = 0\<rparr>\<rparr>"

definition arrivedAnt :: Ant where
  "arrivedAnt = arrivingAnt\<lparr>carryingTime := 12.05, position := \<lparr>vx = 56.15, vy = 40\<rparr>,
     pathIntegration := \<lparr>vx = - 3.85, vy = 0\<rparr>, depositAccumulator := 0.05\<rparr>"

type_synonym AntContext = "SimulationState \<times> SimulationSettings \<times> real \<times> Vector2 \<times> Oracle"

text \<open>
  The updates of one ant over time: each update has its own surroundings (the state the
  other ants and the food lifecycle have left, the settings of that pass, the time step
  and the random numbers).
\<close>

fun antRun :: "Ant \<Rightarrow> AntContext list \<Rightarrow> Ant" where
  "antRun ant [] = ant"
| "antRun ant ((state, settings, delta, nestPosition, orc) # rest) =
     antRun (fst (updateAnt ant state settings delta nestPosition orc)) rest"

fun contextDelta :: "AntContext \<Rightarrow> real" where
  "contextDelta (state, settings, delta, nestPosition, orc) = delta"

definition simulatedTime :: "AntContext list \<Rightarrow> real" where
  "simulatedTime contexts = sum_list (map contextDelta contexts)"

definition stillContext :: AntContext where
  "stillContext = (demoState [], demoSettings\<lparr>antSpeed := 0\<rparr>, 0.05, \<lparr>vx = 60, vy = 40\<rparr>, demoOracle)"

definition freshAnt :: Ant where
  "freshAnt = fst (createAnt 0 \<lparr>vx = 60, vy = 40\<rparr> (pi / 12) 0.4 demoOracle)"

definition walkContext :: AntContext where
  "walkContext = (demoState [], demoSettings, 0.05, \<lparr>vx = 60, vy = 40\<rparr>, demoOracle)"

definition walkerAnt :: "real \<Rightarrow> real \<Rightarrow> real \<Rightarrow> real \<Rightarrow> Ant" where
  "walkerAnt x timer trailTime signalTime =
     \<lparr>ant_id = 0, position = \<lparr>vx = x, vy = 40\<rparr>, direction = pi, carryingFood = False,
      speed = 0, pheromoneCooldown = 0, depositAccumulator = trailTime, personalIntensity = 0,
      lastDirection = pi, stalledTime = 0, carryingTime = 0, forceReturn = False,
      nestSignalTimer = timer, nestSignalAccumulator = signalTime,
      pathIntegration = \<lparr>vx = x - 60, vy = 0\<rparr>\<rparr>"

text \<open>
  Three sources in list order: one far from the forager, an empty one at the forager's
  place, and a stocked one at the same place.
\<close>

definition pantry :: "FoodSource list" where
  "pantry = [(demoFood 250)\<lparr>food_position := \<lparr>vx = 20, vy = 40\<rparr>\<rparr>, demoFood 0, demoFood 250]"

section \<open>Pheromone grids: bounds\<close>

lemma unit_list_update:
  assumes "list_all (\<lambda>v. 0 \<le> v \<and> v \<le> 1) xs" and "0 \<le> a"
  shows "list_all (\<lambda>v. (0::real) \<le> v \<and> v \<le> 1) (xs[k := min 1 (xs ! k + a)])"
proof (cases "k < length xs")
  case True
  with assms(1) have "0 \<le> xs ! k"
    by (simp add: list_all_length)
  with assms(2) have "0 \<le> min 1 (xs ! k + a) \<and> min 1 (xs ! k + a) \<le> 1"
    by simp
  with assms(1) True show ?thesis
    unfolding list_all_length by (simp add: nth_list_update)
next
  case False
  with assms(1) show ?thesis
    by (simp add: list_update_beyond)
qed

lemma unitCells_deposit:
  assumes "unitCells grid" and "0 \<le> amount"
  shows "unitCells (depositPheromone grid pos amount)"
proof (cases "index (sampleGridCell grid pos) < 0")
  case True
  with assms(1) show ?thesis
    by (simp add: depositPheromone_def Let_def)
next
  case False
  then have "weight (sampleGridCell grid pos) = 1"
    by (simp add: sampleGridCell_def Let_def split: if_splits)
  with False assms show ?thesis
    by (simp add: depositPheromone_def Let_def unitCells_def unit_list_update)
qed

lemma markNestSignal_eq: "markNestSignal grid pos amount = depositPheromone grid pos amount"
  by (simp add: markNestSignal_def depositPheromone_def)

lemma evaporateCell_unit:
  assumes "0 \<le> v" "v \<le> 1" "0 \<le> f" "f \<le> 1"
  shows "0 \<le> evaporateCell f v \<and> evaporateCell f v \<le> 1"
proof -
  have "v * f \<le> 1 * 1"
    using assms by (intro mult_mono) auto
  moreover have "0 \<le> v * f"
    using assms by simp
  ultimately show ?thesis
    by (simp add: evaporateCell_def Let_def)
qed

lemma unitCells_evaporate:
  assumes "unitCells grid" and "0 \<le> rate" and "0 \<le> delta"
  shows "unitCells (evaporatePheromones grid rate delta)"
proof -
  define f where "f = max 0 (1 - rate * delta)"
  have "0 \<le> rate * delta"
    using assms by simp
  then have f: "0 \<le> f" "f \<le> 1"
    by (simp_all add: f_def)
  have "0 \<le> evaporateCell f v \<and> evaporateCell f v \<le> 1" if "v \<in> set (cells grid)" for v
  proof -
    from assms(1) that have "0 \<le> v" "v \<le> 1"
      by (simp_all add: unitCells_def list_all_iff)
    with f show ?thesis
      by (simp add: evaporateCell_unit)
  qed
  then show ?thesis
    by (simp add: unitCells_def evaporatePheromones_def list_all_iff f_def)
qed

lemma unitCells_runGridCall:
  assumes "unitCells grid" and "nonNegativeCall c"
  shows "unitCells (runGridCall grid c)"
  using assms
  by (cases c) (simp_all add: unitCells_deposit unitCells_evaporate markNestSignal_eq)

lemma unitCells_foldl:
  "unitCells grid \<Longrightarrow> list_all nonNegativeCall calls \<Longrightarrow> unitCells (foldl runGridCall grid calls)"
  by (induction calls arbitrary: grid) (simp_all add: unitCells_runGridCall)

lemma evaporate_snap:
  assumes "k < length (cells grid)"
    and "cells grid ! k * max 0 (1 - rate * delta) < 0.001"
  shows "cells (evaporatePheromones grid rate delta) ! k = 0"
  using assms by (simp add: evaporatePheromones_def evaporateCell_def Let_def)

text \<open>
  Claim C1. If every cell of a pheromone grid (home trail, food trail or nest signal) is in
  the interval from 0 to 1, then after any sequence of \<open>depositPheromone\<close> and
  \<open>markNestSignal\<close> calls with amounts that are not negative and \<open>evaporatePheromones\<close>
  calls with a rate and a time step that are not negative, every cell is still in that
  interval; and a cell whose value falls below 0.001 in an evaporation is set to
  exactly 0.
\<close>

theorem pheromone_cells_stay_in_unit_interval:
  assumes "unitCells grid" and "list_all nonNegativeCall calls"
  shows "unitCells (runGridCalls grid calls) \<and>
    (\<forall>g rate delta k.
       k < length (cells g) \<and> cells g ! k * max 0 (1 - rate * delta) < 0.001
       \<longrightarrow> cells (evaporatePheromones g rate delta) ! k = 0)"
  using assms by (simp add: runGridCalls_def unitCells_foldl evaporate_snap)

theorem pheromone_cells_stay_in_unit_interval_witness:
  "unitCells (runGridCalls exampleGrid
      [Deposit \<lparr>vx = 1.5, vy = 1.5\<rparr> 0.55, Evaporate 0.15 0.05, MarkNest \<lparr>vx = 0.5, vy = 0.5\<rparr> 0.45])
   \<and> cells (evaporatePheromones exampleGrid 8 0.05) ! 1 = 0"
proof -
  have unit: "unitCells exampleGrid"
    by (simp add: unitCells_def exampleGrid_def)
  have calls: "list_all nonNegativeCall
      [Deposit \<lparr>vx = 1.5, vy = 1.5\<rparr> 0.55, Evaporate 0.15 0.05, MarkNest \<lparr>vx = 0.5, vy = 0.5\<rparr> 0.45]"
    by simp
  have small: "(1::nat) < length (cells exampleGrid) \<and>
      cells exampleGrid ! 1 * max 0 (1 - 8 * 0.05) < 0.001"
    by (simp add: exampleGrid_def)
  from pheromone_cells_stay_in_unit_interval [OF unit calls] small show ?thesis
    by blast
qed

section \<open>Pheromone grids: points outside the grid\<close>

text \<open>
  Claim C9. For every grid and every world point whose cell, found by dividing each
  coordinate by the cell size and rounding down, lies outside the grid, a deposit at that
  point leaves the grid as it was and a sample at that point is exactly 0; neither
  fails. (The quotient is the real quotient, so the cell size is taken to be other than
  0; every grid the program builds has the cell size 1.)
\<close>

theorem outside_grid_deposit_is_noop_and_sample_is_zero:
  assumes "cellSize grid \<noteq> 0"
    and "\<lfloor>vx pos / cellSize grid\<rfloor> < 0 \<or> \<lfloor>vy pos / cellSize grid\<rfloor> < 0 \<or>
         \<lfloor>vx pos / cellSize grid\<rfloor> \<ge> columns grid \<or> \<lfloor>vy pos / cellSize grid\<rfloor> \<ge> rows grid"
  shows "depositPheromone grid pos amount = grid \<and>
         markNestSignal grid pos amount = grid \<and>
         sampleGridValue grid pos = Some 0"
proof -
  from assms(2) have "index (sampleGridCell grid pos) = -1"
    by (simp add: sampleGridCell_def Let_def)
  then show ?thesis
    by (simp add: depositPheromone_def markNestSignal_def sampleGridValue_def Let_def)
qed

theorem outside_grid_deposit_is_noop_and_sample_is_zero_witness:
  "depositPheromone exampleGrid \<lparr>vx = 2.5, vy = 0.5\<rparr> 0.55 = exampleGrid \<and>
   markNestSignal exampleGrid \<lparr>vx = 2.5, vy = 0.5\<rparr> 0.55 = exampleGrid \<and>
   sampleGridValue exampleGrid \<lparr>vx = 2.5, vy = 0.5\<rparr> = Some 0"
proof -
  have size: "cellSize exampleGrid \<noteq> 0"
    by (simp add: exampleGrid_def)
  have outside:
    "\<lfloor>vx \<lparr>vx = 2.5, vy = 0.5\<rparr> / cellSize exampleGrid\<rfloor> < 0 \<or>
     \<lfloor>vy \<lparr>vx = 2.5, vy = 0.5\<rparr> / cellSize exampleGrid\<rfloor> < 0 \<or>
     \<lfloor>vx \<lparr>vx = 2.5, vy = 0.5\<rparr> / cellSize exampleGrid\<rfloor> \<ge> columns exampleGrid \<or>
     \<lfloor>vy \<lparr>vx = 2.5, vy = 0.5\<rparr> / cellSize exampleGrid\<rfloor> \<ge> rows exampleGrid"
    by (simp add: exampleGrid_def)
  show ?thesis
    by (rule outside_grid_deposit_is_noop_and_sample_is_zero [OF size outside])
qed

section \<open>Food sources: capacity and removal\<close>

lemma updateAnt_phases:
  assumes "updateAnt ant state settings delta nestPosition orc = (ant', state', orc')"
  obtains ant2 orc1 ant3 moved orc2 ant4 orc3 ant5 state1 ant6 state2 where
    "updateAnt_heading (updateAnt_carry ant delta) state settings orc = (ant2, orc1)"
    "updateAnt_move ant2 settings delta nestPosition orc1 = (ant3, moved, orc2)"
    "updateAnt_stall ant3 moved delta nestPosition orc2 = (ant4, orc3)"
    "updateAnt_deposit ant4 state settings delta = (ant5, state1)"
    "updateAnt_nestSignal ant5 state1 delta = (ant6, state2)"
    "updateAnt_transition ant6 state2 settings nestPosition orc3 = (ant', state', orc')"
  using assms by (auto simp: updateAnt_def Let_def split: prod.splits)

lemma deposit_foodSources:
  "updateAnt_deposit ant state settings delta = (ant', state') \<Longrightarrow> foodSources state' = foodSources state"
  by (auto simp: updateAnt_deposit_def Let_def split: if_splits)

lemma nestSignal_foodSources:
  "updateAnt_nestSignal ant state delta = (ant', state') \<Longrightarrow> foodSources state' = foodSources state"
  by (auto simp: updateAnt_nestSignal_def Let_def split: if_splits)













section \<open>Angles, remainders and sampling an empty grid\<close>

lemma scaled_floor:
  fixes a b :: real
  assumes "0 < b"
  shows "b * real_of_int \<lfloor>a / b\<rfloor> \<le> a \<and> a < b * real_of_int \<lfloor>a / b\<rfloor> + b"
proof -
  have lower: "real_of_int \<lfloor>a / b\<rfloor> * b \<le> a"
    unfolding pos_le_divide_eq [OF assms, symmetric] by linarith
  have "a < (real_of_int \<lfloor>a / b\<rfloor> + 1) * b"
    unfolding pos_divide_less_eq [OF assms, symmetric] by linarith
  with lower show ?thesis
    by (simp add: algebra_simps)
qed

lemma scaled_ceiling:
  fixes a b :: real
  assumes "0 < b"
  shows "a \<le> b * real_of_int \<lceil>a / b\<rceil> \<and> b * real_of_int \<lceil>a / b\<rceil> < a + b"
proof -
  have lower: "a \<le> real_of_int \<lceil>a / b\<rceil> * b"
    unfolding pos_divide_le_eq [OF assms, symmetric] by linarith
  have "(real_of_int \<lceil>a / b\<rceil> - 1) * b < a"
    unfolding pos_less_divide_eq [OF assms, symmetric] by linarith
  with lower show ?thesis
    by (simp add: algebra_simps)
qed

lemma js_rem_nonneg:
  assumes "0 \<le> a" "0 < b"
  shows "0 \<le> js_rem a b \<and> js_rem a b < b"
proof -
  have "0 \<le> a / b"
    using assms by simp
  with scaled_floor [OF assms(2), of a] show ?thesis
    by (simp add: js_rem_def js_trunc_def)
qed

lemma js_rem_neg:
  assumes "a < 0" "0 < b"
  shows "- b < js_rem a b \<and> js_rem a b \<le> 0"
proof -
  have "a / b < 0"
    using assms by (rule divide_neg_pos)
  then have "\<not> 0 \<le> a / b"
    by simp
  with scaled_ceiling [OF assms(2), of a] show ?thesis
    by (simp add: js_rem_def js_trunc_def)
qed

lemma wrapAngle_range: "0 \<le> wrapAngle angle \<and> wrapAngle angle < 2 * pi"
proof -
  have "- (pi * 2) < js_rem angle (pi * 2) \<and> js_rem angle (pi * 2) < pi * 2"
    using js_rem_nonneg [of angle "pi * 2"] js_rem_neg [of angle "pi * 2"]
    by (cases "0 \<le> angle") auto
  then have "0 \<le> js_rem angle (pi * 2) + pi * 2"
    by simp
  from js_rem_nonneg [OF this, of "pi * 2"] show ?thesis
    by (simp add: wrapAngle_def Let_def mult.commute)
qed

lemma wrapAngle_id:
  assumes "0 \<le> angle" "angle < 2 * pi"
  shows "wrapAngle angle = angle"
proof -
  have "0 \<le> angle / (pi * 2)" "angle / (pi * 2) < 1"
    using assms by simp_all
  then have f1: "\<lfloor>angle / (pi * 2)\<rfloor> = 0"
    by linarith
  then have r1: "js_rem angle (pi * 2) = angle"
    using \<open>0 \<le> angle / (pi * 2)\<close> by (simp add: js_rem_def js_trunc_def)
  have "(angle + pi * 2) / (pi * 2) = angle / (pi * 2) + 1"
    by (simp add: field_simps)
  then have f2: "\<lfloor>(angle + pi * 2) / (pi * 2)\<rfloor> = 1"
    using f1 by simp
  have "0 \<le> (angle + pi * 2) / (pi * 2)"
    using assms by simp
  then have "js_rem (angle + pi * 2) (pi * 2) = angle"
    using f2 by (simp add: js_rem_def js_trunc_def)
  with r1 show ?thesis
    by (simp add: wrapAngle_def Let_def)
qed

lemma normalizeAngle_id:
  assumes "- pi \<le> angle" "angle \<le> pi"
  shows "normalizeAngle angle = angle"
  using assms
  by (simp add: normalizeAngle_def normalizeAngleDown.simps [of angle] normalizeAngleUp.simps [of angle])

lemma interpolateAngle_near:
  assumes "- pi \<le> toAngle - fromAngle" "toAngle - fromAngle \<le> pi"
  shows "interpolateAngle fromAngle toAngle bias
    = fromAngle + (toAngle - fromAngle) * min 1 (max 0 bias)"
  using assms by (simp add: interpolateAngle_def Let_def normalizeAngle_id)

lemma interpolateAngle_same [simp]: "interpolateAngle angle angle bias = angle"
  by (simp add: interpolateAngle_near)

lemma createPheromoneGrid_eq:
  "createPheromoneGrid = \<lparr>columns = 120, rows = 80, cellSize = 1, cells = replicate 9600 0\<rparr>"
  by (simp add: createPheromoneGrid_def world_def Let_def)

lemma index_in_grid:
  fixes row col columns rows :: int
  assumes "0 \<le> col" "col < columns" "0 \<le> row" "row < rows"
  shows "0 \<le> row * columns + col \<and> row * columns + col < columns * rows"
proof -
  have "row * columns + col < row * columns + columns"
    using assms by simp
  also have "\<dots> = (row + 1) * columns"
    by (simp add: algebra_simps)
  also have "\<dots> \<le> rows * columns"
    using assms by (intro mult_right_mono) auto
  finally have "row * columns + col < columns * rows"
    by (simp add: mult.commute)
  moreover have "0 \<le> row * columns"
    using assms by simp
  ultimately show ?thesis
    using assms(1) by simp
qed

lemma sampleGridValue_empty [simp]: "sampleGridValue createPheromoneGrid pos = Some 0"
proof (cases "index (sampleGridCell createPheromoneGrid pos) < 0")
  case True
  then show ?thesis
    by (simp add: sampleGridValue_def Let_def)
next
  case False
  then have "0 \<le> \<lfloor>vx pos\<rfloor>" "\<lfloor>vx pos\<rfloor> < 120" "0 \<le> \<lfloor>vy pos\<rfloor>" "\<lfloor>vy pos\<rfloor> < 80"
    and idx: "index (sampleGridCell createPheromoneGrid pos) = \<lfloor>vy pos\<rfloor> * 120 + \<lfloor>vx pos\<rfloor>"
    by (auto simp: sampleGridCell_def createPheromoneGrid_eq Let_def split: if_splits)
  from index_in_grid [OF this(1-4)] have "nat (\<lfloor>vy pos\<rfloor> * 120 + \<lfloor>vx pos\<rfloor>) < 9600"
    by linarith
  with False idx show ?thesis
    by (simp add: sampleGridValue_def Let_def createPheromoneGrid_eq)
qed

lemma probeSamples_empty:
  assumes "secondary = None \<or> secondary = Some createPheromoneGrid"
  shows "probeSamples ant createPheromoneGrid secondary secWeight probeDist offs = []"
  using assms by (induction offs) (auto simp: Let_def)

lemma samplePheromoneDirection_empty:
  assumes "Option.bind options secondaryGrid = None
    \<or> Option.bind options secondaryGrid = Some createPheromoneGrid"
  shows "samplePheromoneDirection ant createPheromoneGrid settings options = None"
  using assms by (simp add: samplePheromoneDirection_def Let_def probeSamples_empty)

lemma random_demoOracle [simp]: "random demoOracle = (1 / 2, demoOracle)"
  by (simp add: random_def demoOracle_def)

section \<open>The ant update: where the trail deposit goes\<close>

lemma atan2_west [simp]: "a < 0 \<Longrightarrow> atan2 0 a = pi"
  by (simp add: atan2_def)

lemma atan2_east [simp]: "0 < a \<Longrightarrow> atan2 0 a = 0"
  by (simp add: atan2_def)

lemma hypot_axis [simp]: "hypot a 0 = \<bar>a\<bar>"
  by (simp add: hypot_def)

lemma wrapAngle_pi [simp]: "wrapAngle pi = pi"
  by (rule wrapAngle_id) simp_all

lemma wrapAngle_zero [simp]: "wrapAngle 0 = 0"
  by (rule wrapAngle_id) simp_all

lemma distance_level:
  "vy a = vy b \<Longrightarrow> distance a b = \<bar>vx a - vx b\<bar>"
  by (simp add: distance_def Let_def)

lemma advanceRetry_inside:
  "isInsideWorld nextPosition 0.05 \<Longrightarrow>
   advanceRetry attempt origin target moveDistance dir nextPosition orc = (dir, nextPosition, orc)"
  by (subst advanceRetry.simps) simp

lemma carry_returning:
  "updateAnt_carry (returningAnt 12 False) 0.05 = returningAnt 12.05 False"
  "updateAnt_carry (returningAnt 34.98 False) 0.05 = returningAnt 0 True"
  by (simp_all add: updateAnt_carry_def returningAnt_def Let_def)

lemma heading_returning:
  "updateAnt_heading (returningAnt carried forced) (demoState sources) demoSettings demoOracle
     = (returningAnt carried forced, demoOracle)"
  by (cases forced)
    (simp_all add: updateAnt_heading_def returningAnt_def demoState_def demoSettings_def Let_def
      samplePheromoneDirection_empty)

lemma move_returning:
  "updateAnt_move (returningAnt carried forced) demoSettings 0.05 \<lparr>vx = 60, vy = 40\<rparr> demoOracle
     = (returningMoved carried forced, 0.35, demoOracle)"
  by (simp add: updateAnt_move_def advanceAntWithinWorld_def advanceRetry_inside projectMove_def
      isInsideWorld_def distance_level world_def returningAnt_def returningMoved_def
      demoSettings_def Let_def)

lemma stall_returning:
  "updateAnt_stall (returningMoved carried forced) 0.35 0.05 \<lparr>vx = 60, vy = 40\<rparr> demoOracle
     = (returningMoved carried forced, demoOracle)"
  by (simp add: updateAnt_stall_def returningMoved_def returningAnt_def)

lemma deposit_returning:
  "updateAnt_deposit (returningMoved carried forced) (demoState sources) demoSettings 0.05
     = ((returningMoved carried forced)\<lparr>depositAccumulator := 0\<rparr>,
        (demoState sources)\<lparr>foodPheromones :=
           depositPheromone createPheromoneGrid \<lparr>vx = 79.65, vy = 40\<rparr> 0.55\<rparr>)"
  by (simp add: updateAnt_deposit_def returningMoved_def returningAnt_def demoState_def
      demoSettings_def Let_def)

lemma nestSignal_returning:
  "updateAnt_nestSignal ((returningMoved carried forced)\<lparr>depositAccumulator := 0\<rparr>) state 0.05
     = ((returningMoved carried forced)\<lparr>depositAccumulator := 0\<rparr>, state)"
  by (simp add: updateAnt_nestSignal_def returningMoved_def returningAnt_def)

lemma transition_returning:
  "nest state = \<lparr>nest_position = \<lparr>vx = 60, vy = 40\<rparr>, nest_radius = 4\<rparr> \<Longrightarrow>
   updateAnt_transition ((returningMoved carried forced)\<lparr>depositAccumulator := 0\<rparr>) state demoSettings
       \<lparr>vx = 60, vy = 40\<rparr> demoOracle
     = ((returningMoved carried forced)\<lparr>depositAccumulator := 0\<rparr>, state, demoOracle)"
  by (simp add: updateAnt_transition_def returningMoved_def returningAnt_def distance_level Let_def)

lemma updateAnt_returning:
  assumes "updateAnt_carry (returningAnt carried forced) 0.05 = returningAnt carried' forced'"
  shows "updateAnt (returningAnt carried forced) (demoState sources) demoSettings 0.05
       \<lparr>vx = 60, vy = 40\<rparr> demoOracle
     = ((returningMoved carried' forced')\<lparr>depositAccumulator := 0\<rparr>,
        (demoState sources)\<lparr>foodPheromones :=
           depositPheromone createPheromoneGrid \<lparr>vx = 79.65, vy = 40\<rparr> 0.55\<rparr>,
        demoOracle)"
proof -
  have n: "nest ((demoState sources)\<lparr>foodPheromones :=
           depositPheromone createPheromoneGrid \<lparr>vx = 79.65, vy = 40\<rparr> 0.55\<rparr>)
      = \<lparr>nest_position = \<lparr>vx = 60, vy = 40\<rparr>, nest_radius = 4\<rparr>"
    by (simp add: demoState_def)
  show ?thesis
    by (simp only: updateAnt_def Let_def assms heading_returning move_returning
        stall_returning deposit_returning nestSignal_returning transition_returning [OF n] prod.case)
qed

lemma deposit_cell:
  "cells (depositPheromone createPheromoneGrid \<lparr>vx = 79.65, vy = 40\<rparr> 0.55) ! 4879 = 0.55"
  by (simp add: depositPheromone_def sampleGridCell_def createPheromoneGrid_eq Let_def)

lemma carry_shape:
  "updateAnt_carry ant delta
     = ant\<lparr>carryingTime := carryingTime (updateAnt_carry ant delta),
           forceReturn := forceReturn (updateAnt_carry ant delta)\<rparr>"
  by (simp add: updateAnt_carry_def Let_def)

lemma heading_shape:
  "updateAnt_heading ant state settings orc = (ant', orc') \<Longrightarrow> ant' = ant\<lparr>direction := direction ant'\<rparr>"
  by (auto simp: updateAnt_heading_def Let_def split: prod.splits)

lemma advance_shape:
  "advanceAntWithinWorld ant moveDistance nestPosition orc = (ant', moved, orc') \<Longrightarrow>
   ant' = ant\<lparr>direction := direction ant', position := position ant'\<rparr>"
  by (auto simp: advanceAntWithinWorld_def Let_def split: prod.splits if_splits)

lemma move_shape:
  "updateAnt_move ant settings delta nestPosition orc = (ant', moved, orc') \<Longrightarrow>
   ant' = ant\<lparr>direction := direction ant', position := position ant',
               pathIntegration := pathIntegration ant'\<rparr>"
  by (auto simp: updateAnt_move_def Let_def split: prod.splits dest!: advance_shape)

lemma stall_shape:
  "updateAnt_stall ant moved delta nestPosition orc = (ant', orc') \<Longrightarrow>
   ant' = ant\<lparr>stalledTime := stalledTime ant', direction := direction ant'\<rparr>"
  by (auto simp: updateAnt_stall_def Let_def split: prod.splits if_splits)

lemma deposit_shape:
  "updateAnt_deposit ant state settings delta = (ant', state') \<Longrightarrow>
   ant' = ant\<lparr>depositAccumulator := depositAccumulator ant'\<rparr>"
  by (auto simp: updateAnt_deposit_def Let_def split: if_splits)

lemma nestSignal_shape:
  "updateAnt_nestSignal ant state delta = (ant', state') \<Longrightarrow>
   ant' = ant\<lparr>nestSignalTimer := nestSignalTimer ant',
               nestSignalAccumulator := nestSignalAccumulator ant'\<rparr>"
  by (auto simp: updateAnt_nestSignal_def Let_def split: if_splits)

lemma update_after_stall:
  assumes h: "updateAnt_heading (updateAnt_carry ant delta) state settings orc = (ant2, orc1)"
    and m: "updateAnt_move ant2 settings delta nestPosition orc1 = (ant3, moved, orc2)"
    and s: "updateAnt_stall ant3 moved delta nestPosition orc2 = (ant4, orc3)"
  shows "updateAnt ant state settings delta nestPosition orc
    = (let (ant5, state1) = updateAnt_deposit ant4 state settings delta;
           (ant6, state2) = updateAnt_nestSignal ant5 state1 delta
       in updateAnt_transition ant6 state2 settings nestPosition orc3)"
  by (simp only: updateAnt_def Let_def h m s prod.case)

lemma after_stall_fields:
  assumes h: "updateAnt_heading (updateAnt_carry ant delta) state settings orc = (ant2, orc1)"
    and m: "updateAnt_move ant2 settings delta nestPosition orc1 = (ant3, moved, orc2)"
    and s: "updateAnt_stall ant3 moved delta nestPosition orc2 = (ant4, orc3)"
  shows "carryingFood ant4 = carryingFood ant"
    and "forceReturn ant4 = forceReturn (updateAnt_carry ant delta)"
    and "depositAccumulator ant4 = depositAccumulator ant"
    and "nestSignalTimer ant4 = nestSignalTimer ant"
    and "nestSignalAccumulator ant4 = nestSignalAccumulator ant"
    and "position ant4 = position ant3"
    and "pathIntegration ant4 = pathIntegration ant3"
proof -
  obtain d2 where e2: "ant2 = (updateAnt_carry ant delta)\<lparr>direction := d2\<rparr>"
    by (rule that [OF heading_shape [OF h]])
  obtain d3 p3 i3 where e3: "ant3 = ant2\<lparr>direction := d3, position := p3, pathIntegration := i3\<rparr>"
    by (rule that [OF move_shape [OF m]])
  obtain t4 d4 where e4: "ant4 = ant3\<lparr>stalledTime := t4, direction := d4\<rparr>"
    by (rule that [OF stall_shape [OF s]])
  show "carryingFood ant4 = carryingFood ant"
    and "forceReturn ant4 = forceReturn (updateAnt_carry ant delta)"
    and "depositAccumulator ant4 = depositAccumulator ant"
    and "nestSignalTimer ant4 = nestSignalTimer ant"
    and "nestSignalAccumulator ant4 = nestSignalAccumulator ant"
    and "position ant4 = position ant3"
    and "pathIntegration ant4 = pathIntegration ant3"
    unfolding e4 e3 e2 by (simp_all add: updateAnt_carry_def Let_def)
qed

lemma nestSignal_trails:
  "updateAnt_nestSignal ant state delta = (ant', state') \<Longrightarrow>
   homePheromones state' = homePheromones state \<and> foodPheromones state' = foodPheromones state"
  by (auto simp: updateAnt_nestSignal_def Let_def split: if_splits)

lemma transition_grids:
  "updateAnt_transition ant state settings nestPosition orc = (ant', state', orc') \<Longrightarrow>
   homePheromones state' = homePheromones state \<and> foodPheromones state' = foodPheromones state
   \<and> nestSignals state' = nestSignals state"
  by (auto simp: updateAnt_transition_def Let_def split: if_splits option.splits prod.splits)

text \<open>
  Claim C2, as amended. In an ant update in which the deposit interval elapses
  (the accumulated time reaches 0.1) and the ant is not stall-suppressed (its stall time
  after the move is below 0.3), the deposit of the deposition rate times the number of
  intervals elapsed, at the ant's position after the move, goes into the food-trail grid
  if the ant is carrying food and into the home-trail grid if it is foraging; the other
  of the two grids is left as it was.
\<close>

theorem trail_deposit_marks_where_the_ant_comes_from:
  assumes heading: "updateAnt_heading (updateAnt_carry ant delta) state settings orc = (ant2, orc1)"
    and move: "updateAnt_move ant2 settings delta nestPosition orc1 = (ant3, moved, orc2)"
    and stall: "updateAnt_stall ant3 moved delta nestPosition orc2 = (ant4, orc3)"
    and update: "updateAnt ant state settings delta nestPosition orc = (ant', state', orc')"
    and unstalled: "stalledTime ant4 < 0.3"
    and due: "depositAccumulator ant + delta \<ge> 0.1"
    and amount: "amount = depositionRate settings * of_int \<lfloor>(depositAccumulator ant + delta) / 0.1\<rfloor>"
  shows "if carryingFood ant
         then foodPheromones state' = depositPheromone (foodPheromones state) (position ant4) amount
              \<and> homePheromones state' = homePheromones state
         else homePheromones state' = depositPheromone (homePheromones state) (position ant4) amount
              \<and> foodPheromones state' = foodPheromones state"
proof -
  note keep = after_stall_fields [OF heading move stall]
  obtain ant5 state1 where d: "updateAnt_deposit ant4 state settings delta = (ant5, state1)"
    by (metis prod.exhaust)
  obtain ant6 state2 where n: "updateAnt_nestSignal ant5 state1 delta = (ant6, state2)"
    by (metis prod.exhaust)
  from update have t: "updateAnt_transition ant6 state2 settings nestPosition orc3 = (ant', state', orc')"
    by (simp add: update_after_stall [OF heading move stall] d n)
  from d unstalled due keep(1,3) have
    "if carryingFood ant
     then foodPheromones state1 = depositPheromone (foodPheromones state) (position ant4) amount
          \<and> homePheromones state1 = homePheromones state
     else homePheromones state1 = depositPheromone (homePheromones state) (position ant4) amount
          \<and> foodPheromones state1 = foodPheromones state"
    by (auto simp: updateAnt_deposit_def Let_def amount split: if_splits)
  with nestSignal_trails [OF n] transition_grids [OF t] show ?thesis
    by (simp split: if_splits)
qed

lemma carry_forager: "updateAnt_carry foragerAnt 0.05 = foragerAnt"
  by (simp add: updateAnt_carry_def foragerAnt_def)

lemma heading_forager:
  "updateAnt_heading foragerAnt (demoState sources) demoSettings demoOracle = (foragerAnt, demoOracle)"
  by (simp add: updateAnt_heading_def foragerAnt_def demoState_def demoSettings_def Let_def
      samplePheromoneDirection_empty)

lemma move_forager:
  "updateAnt_move foragerAnt demoSettings 0.05 \<lparr>vx = 60, vy = 40\<rparr> demoOracle
     = (foragerMoved, 0.35, demoOracle)"
  by (simp add: updateAnt_move_def advanceAntWithinWorld_def advanceRetry_inside projectMove_def
      isInsideWorld_def distance_level world_def foragerAnt_def foragerMoved_def
      demoSettings_def getWorldCenter_def Let_def)

lemma stall_forager:
  "updateAnt_stall foragerMoved 0.35 0.05 \<lparr>vx = 60, vy = 40\<rparr> demoOracle = (foragerMoved, demoOracle)"
  by (simp add: updateAnt_stall_def foragerMoved_def foragerAnt_def)

lemma deposit_forager:
  "updateAnt_deposit foragerMoved (demoState sources) demoSettings 0.05
     = (foragerMoved\<lparr>depositAccumulator := 0\<rparr>,
        (demoState sources)\<lparr>homePheromones :=
           depositPheromone createPheromoneGrid \<lparr>vx = 97.85, vy = 40\<rparr> 0.55\<rparr>)"
  by (simp add: updateAnt_deposit_def foragerMoved_def foragerAnt_def demoState_def
      demoSettings_def Let_def)

lemma nestSignal_forager:
  "updateAnt_nestSignal (foragerMoved\<lparr>depositAccumulator := 0\<rparr>) state 0.05
     = (foragerMoved\<lparr>depositAccumulator := 0\<rparr>, state)"
  by (simp add: updateAnt_nestSignal_def foragerMoved_def foragerAnt_def)

lemma find_forager:
  "0 < cap \<Longrightarrow> findFoodSourceIn [demoFood cap] \<lparr>vx = 97.85, vy = 40\<rparr> = Some 0"
  by (simp add: demoFood_def distance_level)

lemma transition_forager:
  assumes "0 < cap"
  shows "updateAnt_transition (foragerMoved\<lparr>depositAccumulator := 0\<rparr>)
       ((demoState [demoFood cap])\<lparr>homePheromones := grid\<rparr>) demoSettings
       \<lparr>vx = 60, vy = 40\<rparr> demoOracle
     = (foragerMoved\<lparr>depositAccumulator := 0, carryingFood := True\<rparr>,
        (demoState [demoFood (max 0 (cap - 1))])\<lparr>homePheromones := grid\<rparr>, demoOracle)"
  using assms
  by (simp add: updateAnt_transition_def findFoodSource_def foragerMoved_def foragerAnt_def
      demoState_def demoFood_def distance_level Let_def)

lemma updateAnt_forager:
  assumes "0 < cap"
  shows "updateAnt foragerAnt (demoState [demoFood cap]) demoSettings 0.05 \<lparr>vx = 60, vy = 40\<rparr> demoOracle
     = (foragerMoved\<lparr>depositAccumulator := 0, carryingFood := True\<rparr>,
        (demoState [demoFood (max 0 (cap - 1))])\<lparr>homePheromones :=
           depositPheromone createPheromoneGrid \<lparr>vx = 97.85, vy = 40\<rparr> 0.55\<rparr>,
        demoOracle)"
  by (simp only: updateAnt_def Let_def carry_forager heading_forager move_forager
      stall_forager deposit_forager nestSignal_forager transition_forager [OF assms] prod.case)

theorem trail_deposit_marks_where_the_ant_comes_from_witness:
  "\<not> carryingFood foragerAnt \<and>
   homePheromones (fst (snd (updateAnt foragerAnt (demoState [demoFood 250]) demoSettings 0.05
        \<lparr>vx = 60, vy = 40\<rparr> demoOracle)))
     = depositPheromone createPheromoneGrid \<lparr>vx = 97.85, vy = 40\<rparr> 0.55 \<and>
   foodPheromones (fst (snd (updateAnt foragerAnt (demoState [demoFood 250]) demoSettings 0.05
        \<lparr>vx = 60, vy = 40\<rparr> demoOracle)))
     = createPheromoneGrid"
proof -
  have unstalled: "stalledTime foragerMoved < 0.3"
    by (simp add: foragerMoved_def foragerAnt_def)
  have due: "depositAccumulator foragerAnt + 0.05 \<ge> 0.1"
    by (simp add: foragerAnt_def)
  have amount: "(0.55::real) = depositionRate demoSettings
      * of_int \<lfloor>(depositAccumulator foragerAnt + 0.05) / 0.1\<rfloor>"
    by (simp add: foragerAnt_def demoSettings_def)
  have forager: "\<not> carryingFood foragerAnt"
    by (simp add: foragerAnt_def)
  have pos: "position foragerMoved = \<lparr>vx = 97.85, vy = 40\<rparr>"
    by (simp add: foragerMoved_def)
  have grids: "homePheromones (demoState [demoFood 250]) = createPheromoneGrid"
    "foodPheromones (demoState [demoFood 250]) = createPheromoneGrid"
    by (simp_all add: demoState_def)
  have update: "updateAnt foragerAnt (demoState [demoFood 250]) demoSettings 0.05
      \<lparr>vx = 60, vy = 40\<rparr> demoOracle
    = (fst (updateAnt foragerAnt (demoState [demoFood 250]) demoSettings 0.05
         \<lparr>vx = 60, vy = 40\<rparr> demoOracle),
       fst (snd (updateAnt foragerAnt (demoState [demoFood 250]) demoSettings 0.05
         \<lparr>vx = 60, vy = 40\<rparr> demoOracle)),
       snd (snd (updateAnt foragerAnt (demoState [demoFood 250]) demoSettings 0.05
         \<lparr>vx = 60, vy = 40\<rparr> demoOracle)))"
    by simp
  have heading: "updateAnt_heading (updateAnt_carry foragerAnt 0.05) (demoState [demoFood 250])
      demoSettings demoOracle = (foragerAnt, demoOracle)"
    by (simp only: carry_forager heading_forager)
  from trail_deposit_marks_where_the_ant_comes_from
    [OF heading move_forager stall_forager update unstalled due amount]
  show ?thesis
    using forager by (simp add: pos grids)
qed

text \<open>
  Claim C2 as stated fails: an ant that carries food, is not stalled and whose deposit
  interval elapses leaves the home-trail grid as it was; its deposit of 0.55 is in the
  food-trail grid.
\<close>

theorem carrying_ant_deposits_into_food_trail:
  "carryingFood (returningAnt 12 False) \<and>
   homePheromones (fst (snd (updateAnt (returningAnt 12 False) (demoState []) demoSettings 0.05
        \<lparr>vx = 60, vy = 40\<rparr> demoOracle))) = homePheromones (demoState []) \<and>
   cells (foodPheromones (demoState [])) ! 4879 = 0 \<and>
   cells (foodPheromones (fst (snd (updateAnt (returningAnt 12 False) (demoState []) demoSettings 0.05
        \<lparr>vx = 60, vy = 40\<rparr> demoOracle)))) ! 4879 = 0.55"
proof -
  have "carryingFood (returningAnt 12 False)"
    by (simp add: returningAnt_def)
  moreover have "cells (foodPheromones (demoState [])) ! 4879 = 0"
    by (simp add: demoState_def createPheromoneGrid_eq)
  ultimately show ?thesis
    unfolding updateAnt_returning [OF carry_returning(1)] using deposit_cell by simp
qed

section \<open>The ant update: picking up food\<close>

lemma findFoodSourceIn_found:
  "findFoodSourceIn sources pos = Some k \<Longrightarrow>
   k < length sources
   \<and> distance pos (food_position (sources ! k)) \<le> food_radius (sources ! k)
   \<and> capacity (sources ! k) > 0"
  by (induction sources arbitrary: k) (auto split: if_splits)

lemma transition_pickup:
  assumes t: "updateAnt_transition ant state settings nestPosition orc = (ant', state', orc')"
    and foraging: "\<not> carryingFood ant"
  shows "position ant' = position ant"
    and "findFoodSource state (position ant) = Some k \<Longrightarrow>
         carryingFood ant' \<and> carryingTime ant' = 0 \<and>
         foodSources state' = (foodSources state)
           [k := (foodSources state ! k)\<lparr>capacity := max 0 (capacity (foodSources state ! k) - 1)\<rparr>]"
    and "findFoodSource state (position ant) = None \<Longrightarrow>
         \<not> carryingFood ant' \<and> foodSources state' = foodSources state"
  using assms
  by (auto simp: updateAnt_transition_def Let_def split: if_splits option.splits)

lemma findFoodSourceIn_first:
  assumes "j < length sources"
    and "distance pos (food_position (sources ! j)) \<le> food_radius (sources ! j)"
    and "capacity (sources ! j) > 0"
  shows "\<exists>k\<le>j. findFoodSourceIn sources pos = Some k \<and>
    (\<forall>i<k. \<not> (distance pos (food_position (sources ! i)) \<le> food_radius (sources ! i)
              \<and> capacity (sources ! i) > 0))"
  using assms
proof (induction sources arbitrary: j)
  case Nil
  then show ?case by simp
next
  case (Cons source rest)
  show ?case
  proof (cases "distance pos (food_position source) \<le> food_radius source \<and> capacity source > 0")
    case True
    then have "findFoodSourceIn (source # rest) pos = Some 0"
      by simp
    then show ?thesis
      by auto
  next
    case False
    with Cons.prems obtain j' where j: "j = Suc j'"
      by (cases j) auto
    from Cons.IH [of j'] Cons.prems j obtain k where
      k: "k \<le> j'" "findFoodSourceIn rest pos = Some k"
        "\<forall>i<k. \<not> (distance pos (food_position (rest ! i)) \<le> food_radius (rest ! i)
              \<and> capacity (rest ! i) > 0)"
      by auto
    have "\<forall>i<Suc k. \<not> (distance pos (food_position ((source # rest) ! i)) \<le> food_radius ((source # rest) ! i)
              \<and> capacity ((source # rest) ! i) > 0)"
    proof (intro allI impI)
      fix i assume "i < Suc k"
      with False k(3) show "\<not> (distance pos (food_position ((source # rest) ! i)) \<le> food_radius ((source # rest) ! i)
              \<and> capacity ((source # rest) ! i) > 0)"
        by (cases i) auto
    qed
    moreover from False k(2) have "findFoodSourceIn (source # rest) pos = Some (Suc k)"
      by simp
    ultimately show ?thesis
      using k(1) j by blast
  qed
qed

lemma findFoodSourceIn_none:
  "findFoodSourceIn sources pos = None \<longleftrightarrow>
   (\<forall>j<length sources. \<not> (distance pos (food_position (sources ! j)) \<le> food_radius (sources ! j)
              \<and> capacity (sources ! j) > 0))"
proof
  assume none: "findFoodSourceIn sources pos = None"
  show "\<forall>j<length sources. \<not> (distance pos (food_position (sources ! j)) \<le> food_radius (sources ! j)
              \<and> capacity (sources ! j) > 0)"
  proof (intro allI impI notI)
    fix j assume "j < length sources"
      and "distance pos (food_position (sources ! j)) \<le> food_radius (sources ! j)
              \<and> capacity (sources ! j) > 0"
    then obtain k where "findFoodSourceIn sources pos = Some k"
      using findFoodSourceIn_first [of j sources pos] by blast
    with none show False
      by simp
  qed
next
  assume "\<forall>j<length sources. \<not> (distance pos (food_position (sources ! j)) \<le> food_radius (sources ! j)
              \<and> capacity (sources ! j) > 0)"
  then show "findFoodSourceIn sources pos = None"
    using findFoodSourceIn_found [of sources pos] by (cases "findFoodSourceIn sources pos") auto
qed

text \<open>
  Claim C3, as amended. When a foraging ant (not carrying food) ends its move within
  the radius of a food source that has capacity above 0, the update sets \<open>carryingFood\<close>
  and resets \<open>carryingTime\<close> to 0, and the first source of the list that the ant is in the
  radius of and that has capacity above 0 (that source itself, when no earlier source of
  the list is such a one) has its capacity lowered by 1 but not below 0: by exactly 1
  when the capacity was at least 1, to 0 otherwise. No other source changes.
\<close>

theorem pickup_takes_one_unit_down_to_zero:
  assumes update: "updateAnt ant state settings delta nestPosition orc = (ant', state', orc')"
    and foraging: "\<not> carryingFood ant"
    and listed: "j < length (foodSources state)"
    and near: "distance (position ant') (food_position (foodSources state ! j))
                 \<le> food_radius (foodSources state ! j)"
    and stocked: "capacity (foodSources state ! j) > 0"
  shows "carryingFood ant' \<and> carryingTime ant' = 0 \<and>
    (\<exists>k\<le>j.
       distance (position ant') (food_position (foodSources state ! k)) \<le> food_radius (foodSources state ! k) \<and>
       capacity (foodSources state ! k) > 0 \<and>
       (\<forall>i<k. \<not> (distance (position ant') (food_position (foodSources state ! i))
                      \<le> food_radius (foodSources state ! i)
                    \<and> capacity (foodSources state ! i) > 0)) \<and>
       foodSources state' = (foodSources state)
         [k := (foodSources state ! k)\<lparr>capacity := max 0 (capacity (foodSources state ! k) - 1)\<rparr>] \<and>
       capacity (foodSources state' ! k)
         = (if capacity (foodSources state ! k) \<ge> 1 then capacity (foodSources state ! k) - 1 else 0)) \<and>
    ((\<forall>i<j. \<not> (distance (position ant') (food_position (foodSources state ! i))
                      \<le> food_radius (foodSources state ! i)
                    \<and> capacity (foodSources state ! i) > 0)) \<longrightarrow>
       foodSources state' = (foodSources state)
         [j := (foodSources state ! j)\<lparr>capacity := max 0 (capacity (foodSources state ! j) - 1)\<rparr>] \<and>
       capacity (foodSources state' ! j)
         = (if capacity (foodSources state ! j) \<ge> 1 then capacity (foodSources state ! j) - 1 else 0))"
proof -
  from update obtain ant2 orc1 ant3 moved orc2 ant4 orc3 ant5 state1 ant6 state2 where
    h: "updateAnt_heading (updateAnt_carry ant delta) state settings orc = (ant2, orc1)" and
    m: "updateAnt_move ant2 settings delta nestPosition orc1 = (ant3, moved, orc2)" and
    s: "updateAnt_stall ant3 moved delta nestPosition orc2 = (ant4, orc3)" and
    d: "updateAnt_deposit ant4 state settings delta = (ant5, state1)" and
    n: "updateAnt_nestSignal ant5 state1 delta = (ant6, state2)" and
    t: "updateAnt_transition ant6 state2 settings nestPosition orc3 = (ant', state', orc')"
    by (rule updateAnt_phases)
  have sources: "foodSources state2 = foodSources state"
    using deposit_foodSources [OF d] nestSignal_foodSources [OF n] by simp
  obtain a5 where e5: "ant5 = ant4\<lparr>depositAccumulator := a5\<rparr>"
    by (rule that [OF deposit_shape [OF d]])
  obtain t6 a6 where e6: "ant6 = ant5\<lparr>nestSignalTimer := t6, nestSignalAccumulator := a6\<rparr>"
    by (rule that [OF nestSignal_shape [OF n]])
  have foraging6: "\<not> carryingFood ant6"
    using foraging after_stall_fields(1) [OF h m s] by (simp add: e6 e5)
  note pick = transition_pickup [OF t foraging6]
  from findFoodSourceIn_first [OF listed near stocked] obtain k where
    k: "k \<le> j" "findFoodSourceIn (foodSources state) (position ant') = Some k"
      "\<forall>i<k. \<not> (distance (position ant') (food_position (foodSources state ! i))
                      \<le> food_radius (foodSources state ! i)
                    \<and> capacity (foodSources state ! i) > 0)"
    by blast
  from k(2) have found6: "findFoodSource state2 (position ant6) = Some k"
    by (simp add: findFoodSource_def sources pick(1))
  from k(2) have inside: "k < length (foodSources state)
     \<and> distance (position ant') (food_position (foodSources state ! k)) \<le> food_radius (foodSources state ! k)
     \<and> capacity (foodSources state ! k) > 0"
    by (rule findFoodSourceIn_found)
  from pick(2) [OF found6] have picked: "carryingFood ant'" "carryingTime ant' = 0"
    "foodSources state' = (foodSources state)
       [k := (foodSources state ! k)\<lparr>capacity := max 0 (capacity (foodSources state ! k) - 1)\<rparr>]"
    by (simp_all add: sources)
  from picked(3) inside have lowered: "capacity (foodSources state' ! k)
      = (if capacity (foodSources state ! k) \<ge> 1 then capacity (foodSources state ! k) - 1 else 0)"
    by simp
  have first: "k = j"
    if "\<forall>i<j. \<not> (distance (position ant') (food_position (foodSources state ! i))
                      \<le> food_radius (foodSources state ! i)
                    \<and> capacity (foodSources state ! i) > 0)"
  proof (rule ccontr)
    assume "k \<noteq> j"
    with k(1) have "k < j"
      by simp
    with that inside show False
      by blast
  qed
  have "\<exists>k\<le>j.
       distance (position ant') (food_position (foodSources state ! k)) \<le> food_radius (foodSources state ! k) \<and>
       capacity (foodSources state ! k) > 0 \<and>
       (\<forall>i<k. \<not> (distance (position ant') (food_position (foodSources state ! i))
                      \<le> food_radius (foodSources state ! i)
                    \<and> capacity (foodSources state ! i) > 0)) \<and>
       foodSources state' = (foodSources state)
         [k := (foodSources state ! k)\<lparr>capacity := max 0 (capacity (foodSources state ! k) - 1)\<rparr>] \<and>
       capacity (foodSources state' ! k)
         = (if capacity (foodSources state ! k) \<ge> 1 then capacity (foodSources state ! k) - 1 else 0)"
    using k(1,3) inside picked(3) lowered by blast
  moreover have "foodSources state' = (foodSources state)
         [j := (foodSources state ! j)\<lparr>capacity := max 0 (capacity (foodSources state ! j) - 1)\<rparr>] \<and>
       capacity (foodSources state' ! j)
         = (if capacity (foodSources state ! j) \<ge> 1 then capacity (foodSources state ! j) - 1 else 0)"
    if "\<forall>i<j. \<not> (distance (position ant') (food_position (foodSources state ! i))
                      \<le> food_radius (foodSources state ! i)
                    \<and> capacity (foodSources state ! i) > 0)"
    using first [OF that] picked(3) lowered by simp
  ultimately show ?thesis
    using picked(1,2) by blast
qed

lemma transition_pantry:
  "updateAnt_transition (foragerMoved\<lparr>depositAccumulator := 0\<rparr>)
       ((demoState pantry)\<lparr>homePheromones := grid\<rparr>) demoSettings
       \<lparr>vx = 60, vy = 40\<rparr> demoOracle
     = (foragerMoved\<lparr>depositAccumulator := 0, carryingFood := True\<rparr>,
        (demoState (pantry[2 := demoFood 249]))\<lparr>homePheromones := grid\<rparr>, demoOracle)"
  by (simp add: updateAnt_transition_def findFoodSource_def foragerMoved_def foragerAnt_def
      demoState_def demoFood_def pantry_def distance_level Let_def)

lemma updateAnt_pantry:
  "updateAnt foragerAnt (demoState pantry) demoSettings 0.05 \<lparr>vx = 60, vy = 40\<rparr> demoOracle
     = (foragerMoved\<lparr>depositAccumulator := 0, carryingFood := True\<rparr>,
        (demoState (pantry[2 := demoFood 249]))\<lparr>homePheromones :=
           depositPheromone createPheromoneGrid \<lparr>vx = 97.85, vy = 40\<rparr> 0.55\<rparr>,
        demoOracle)"
  by (simp only: updateAnt_def Let_def carry_forager heading_forager move_forager
      stall_forager deposit_forager nestSignal_forager transition_pantry prod.case)

theorem pickup_takes_one_unit_down_to_zero_witness:
  "carryingFood (fst (updateAnt foragerAnt (demoState pantry) demoSettings 0.05
        \<lparr>vx = 60, vy = 40\<rparr> demoOracle)) \<and>
   map capacity (foodSources (demoState pantry)) = [250, 0, 250] \<and>
   map capacity (foodSources (fst (snd (updateAnt foragerAnt (demoState pantry) demoSettings 0.05
        \<lparr>vx = 60, vy = 40\<rparr> demoOracle)))) = [250, 0, 249]"
proof -
  note run = updateAnt_pantry
  have foraging: "\<not> carryingFood foragerAnt"
    by (simp add: foragerAnt_def)
  have listed: "2 < length (foodSources (demoState pantry))"
    by (simp add: demoState_def pantry_def)
  have near: "distance (position (foragerMoved\<lparr>depositAccumulator := 0, carryingFood := True\<rparr>))
      (food_position (foodSources (demoState pantry) ! 2)) \<le> food_radius (foodSources (demoState pantry) ! 2)"
    by (simp add: demoState_def pantry_def demoFood_def foragerMoved_def distance_level)
  have stocked: "capacity (foodSources (demoState pantry) ! 2) > 0"
    by (simp add: demoState_def pantry_def demoFood_def)
  have none: "\<forall>i<2. \<not> (distance (position (foragerMoved\<lparr>depositAccumulator := 0, carryingFood := True\<rparr>))
        (food_position (foodSources (demoState pantry) ! i)) \<le> food_radius (foodSources (demoState pantry) ! i)
      \<and> capacity (foodSources (demoState pantry) ! i) > 0)"
    by (simp add: demoState_def pantry_def demoFood_def foragerMoved_def distance_level
        less_Suc_eq numeral_2_eq_2)
  from pickup_takes_one_unit_down_to_zero [OF run foraging listed near stocked] none
  have "carryingFood (foragerMoved\<lparr>depositAccumulator := 0, carryingFood := True\<rparr>)"
    "foodSources ((demoState (pantry[2 := demoFood 249]))\<lparr>homePheromones :=
           depositPheromone createPheromoneGrid \<lparr>vx = 97.85, vy = 40\<rparr> 0.55\<rparr>)
      = (foodSources (demoState pantry))
         [2 := (foodSources (demoState pantry) ! 2)\<lparr>capacity :=
            max 0 (capacity (foodSources (demoState pantry) ! 2) - 1)\<rparr>]"
    by blast+
  then show ?thesis
    unfolding run by (simp add: demoState_def pantry_def demoFood_def)
qed

text \<open>
  Claim C3 as stated fails for a source with less than one unit left: a foraging ant
  within the radius of a source of capacity 0.5 picks up food, and the capacity becomes
  0, not 0.5 less 1.
\<close>

theorem pickup_from_a_nearly_empty_source:
  "\<not> carryingFood foragerAnt \<and>
   findFoodSource (demoState [demoFood 0.5])
     (position (fst (updateAnt foragerAnt (demoState [demoFood 0.5]) demoSettings 0.05
        \<lparr>vx = 60, vy = 40\<rparr> demoOracle))) = Some 0 \<and>
   map capacity (foodSources (demoState [demoFood 0.5])) = [0.5] \<and>
   map capacity (foodSources (fst (snd (updateAnt foragerAnt (demoState [demoFood 0.5]) demoSettings 0.05
        \<lparr>vx = 60, vy = 40\<rparr> demoOracle)))) = [0] \<and>
   (0::real) \<noteq> 0.5 - 1"
proof -
  have run: "updateAnt foragerAnt (demoState [demoFood 0.5]) demoSettings 0.05 \<lparr>vx = 60, vy = 40\<rparr> demoOracle
     = (foragerMoved\<lparr>depositAccumulator := 0, carryingFood := True\<rparr>,
        (demoState [demoFood (max 0 (0.5 - 1))])\<lparr>homePheromones :=
           depositPheromone createPheromoneGrid \<lparr>vx = 97.85, vy = 40\<rparr> 0.55\<rparr>,
        demoOracle)"
    by (rule updateAnt_forager) simp
  have "findFoodSource (demoState [demoFood 0.5])
      (position (foragerMoved\<lparr>depositAccumulator := 0, carryingFood := True\<rparr>)) = Some 0"
    using find_forager [of "0.5"] by (simp add: findFoodSource_def demoState_def foragerMoved_def)
  moreover have "\<not> carryingFood foragerAnt"
    by (simp add: foragerAnt_def)
  ultimately show ?thesis
    unfolding run by (simp add: demoState_def demoFood_def)
qed

section \<open>The ant update: the forced-return flag\<close>

lemma transition_flags:
  assumes "updateAnt_transition ant state settings nestPosition orc = (ant', state', orc')"
    and "flagsConsistent ant"
  shows "flagsConsistent ant'"
  using assms
  by (auto simp: updateAnt_transition_def flagsConsistent_def Let_def
      split: if_splits option.splits prod.splits)

lemma updateAnt_flags:
  assumes update: "updateAnt ant state settings delta nestPosition orc = (ant', state', orc')"
  shows "flagsConsistent ant'"
proof -
  from update obtain ant2 orc1 ant3 moved orc2 ant4 orc3 ant5 state1 ant6 state2 where
    h: "updateAnt_heading (updateAnt_carry ant delta) state settings orc = (ant2, orc1)" and
    m: "updateAnt_move ant2 settings delta nestPosition orc1 = (ant3, moved, orc2)" and
    s: "updateAnt_stall ant3 moved delta nestPosition orc2 = (ant4, orc3)" and
    d: "updateAnt_deposit ant4 state settings delta = (ant5, state1)" and
    n: "updateAnt_nestSignal ant5 state1 delta = (ant6, state2)" and
    t: "updateAnt_transition ant6 state2 settings nestPosition orc3 = (ant', state', orc')"
    by (rule updateAnt_phases)
  obtain a5 where e5: "ant5 = ant4\<lparr>depositAccumulator := a5\<rparr>"
    by (rule that [OF deposit_shape [OF d]])
  obtain t6 a6 where e6: "ant6 = ant5\<lparr>nestSignalTimer := t6, nestSignalAccumulator := a6\<rparr>"
    by (rule that [OF nestSignal_shape [OF n]])
  have "flagsConsistent (updateAnt_carry ant delta)"
    by (simp add: updateAnt_carry_def flagsConsistent_def Let_def)
  then have "flagsConsistent ant6"
    using after_stall_fields(1,2) [OF h m s]
    by (simp add: flagsConsistent_def e6 e5 updateAnt_carry_def Let_def split: if_splits)
  with t show ?thesis
    by (rule transition_flags)
qed

lemma updateAnts_invariant:
  assumes step: "\<And>ant state orc ant' state' orc'.
      Q state \<Longrightarrow> updateAnt ant state settings delta nestPosition orc = (ant', state', orc')
      \<Longrightarrow> P ant' \<and> Q state'"
    and "Q state" and "list_all P updated"
    and "updateAnts colony updated state settings delta nestPosition orc = (colony', state', orc')"
  shows "list_all P colony' \<and> Q state'"
  using assms(2-)
proof (induction colony arbitrary: updated state orc)
  case Nil
  then show ?case by simp
next
  case (Cons ant colony)
  obtain ant1 state1 orc1 where u: "updateAnt ant state settings delta nestPosition orc = (ant1, state1, orc1)"
    by (metis prod_cases3)
  from step [OF Cons.prems(1) u] have "P ant1" "Q state1"
    by simp_all
  moreover from Cons.prems(3) u have "updateAnts colony (updated @ [ant1]) state1 settings delta
      nestPosition orc1 = (colony', state', orc')"
    by simp
  ultimately show ?case
    using Cons.IH [of state1 "updated @ [ant1]" orc1] Cons.prems(2) by simp
qed

lemma spawnFoodLoop_keeps:
  "spawnFoodLoop left controls state minDistance orc = (state', orc') \<Longrightarrow>
   ants state' = ants state \<and> nest state' = nest state"
proof (induction left arbitrary: state orc)
  case 0
  then show ?case by simp
next
  case (Suc left)
  show ?case
  proof (cases "fst (findFoodSpot 0 state minDistance orc)")
    case None
    with Suc.prems have "spawnFoodLoop left controls state minDistance
        (snd (findFoodSpot 0 state minDistance orc)) = (state', orc')"
      by (simp add: split_def)
    from Suc.IH [OF this] show ?thesis .
  next
    case (Some pos)
    with Suc.prems have "spawnFoodLoop left controls
        (state\<lparr>foodSources := foodSources state
           @ [fst (createFoodSource controls pos (snd (findFoodSpot 0 state minDistance orc)))]\<rparr>)
        minDistance (snd (createFoodSource controls pos (snd (findFoodSpot 0 state minDistance orc))))
        = (state', orc')"
      by (simp add: split_def Let_def)
    from Suc.IH [OF this] show ?thesis
      by simp
  qed
qed

lemma updateFoodRespawn_keeps:
  "updateFoodRespawn autoFood controls state delta orc = (state', orc') \<Longrightarrow>
   ants state' = ants state \<and> nest state' = nest state"
  by (auto simp: updateFoodRespawn_def spawnRandomFood_def Let_def
      split: if_splits prod.splits dest!: spawnFoodLoop_keeps)

lemma updateAnt_nest:
  assumes "updateAnt ant state settings delta nestPosition orc = (ant', state', orc')"
  shows "nest state' = nest state"
proof -
  from assms obtain ant2 orc1 ant3 moved orc2 ant4 orc3 ant5 state1 ant6 state2 where
    d: "updateAnt_deposit ant4 state settings delta = (ant5, state1)" and
    n: "updateAnt_nestSignal ant5 state1 delta = (ant6, state2)" and
    t: "updateAnt_transition ant6 state2 settings nestPosition orc3 = (ant', state', orc')"
    by (rule updateAnt_phases)
  from d have "nest state1 = nest state"
    by (auto simp: updateAnt_deposit_def Let_def split: if_splits)
  moreover from n have "nest state2 = nest state1"
    by (auto simp: updateAnt_nestSignal_def Let_def split: if_splits)
  moreover from t have "nest state' = nest state2"
    by (auto simp: updateAnt_transition_def Let_def split: if_splits option.splits prod.splits)
  ultimately show ?thesis
    by simp
qed

lemma pushAnts_all:
  assumes "\<And>ident pos spread jitter orc. P (fst (createAnt ident pos spread jitter orc))"
    and "list_all P colony"
  shows "list_all P (fst (pushAnts left i colony nestPosition config orc))"
  using assms(2)
proof (induction left arbitrary: i colony orc)
  case 0
  then show ?case by simp
next
  case (Suc left)
  then show ?case
    using assms(1) by (simp add: split_def Let_def)
qed

lemma updateAntPopulation_keeps:
  "updateAntPopulation state target config orc = (state', orc') \<Longrightarrow> nest state' = nest state"
  by (auto simp: updateAntPopulation_def Let_def split: if_splits prod.splits)

text \<open>What an update pass does to the ants and the nest, with its intermediate states named.\<close>

lemma simulationPass_ants:
  obtains state5 orc1 state6 orc2 where
    "nest state5 = nest state"
    "updateAnts (ants state5) [] state5 settings delta (nest_position (nest state5)) orc1
       = (ants (fst (simulationPass delta settings autoFood controls (state, orc))), state6, orc2)"
    "nest (fst (simulationPass delta settings autoFood controls (state, orc))) = nest state6"
proof -
  define state4 where "state4 =
    state\<lparr>stats := (stats state)\<lparr>elapsedSeconds := elapsedSeconds (stats state) + delta\<rparr>,
          homePheromones := evaporatePheromones (homePheromones state) (evaporationRate settings) delta,
          foodPheromones := evaporatePheromones (foodPheromones state) (evaporationRate settings) delta,
          nestSignals := evaporatePheromones (nestSignals state) NEST_SIGNAL_DECAY_RATE delta\<rparr>"
  obtain state5 orc1 where p: "updateAntPopulation state4 (antCount settings)
      \<lparr>angleSpread = pi / 12, directionJitter = 0.4\<rparr> orc = (state5, orc1)"
    by (metis prod.exhaust)
  obtain colony state6 orc2 where u: "updateAnts (ants state5) [] state5 settings delta
      (nest_position (nest state5)) orc1 = (colony, state6, orc2)"
    by (metis prod_cases3)
  define state8 where "state8 =
    (handleFoodDepletion (state6\<lparr>ants := colony\<rparr>) settings delta)
      \<lparr>foodPheromones := reinforceFoodSources
         (foodPheromones (handleFoodDepletion (state6\<lparr>ants := colony\<rparr>) settings delta))
         (foodSources (handleFoodDepletion (state6\<lparr>ants := colony\<rparr>) settings delta)) delta\<rparr>"
  obtain state9 orc3 where r: "updateFoodRespawn autoFood controls state8 delta orc2 = (state9, orc3)"
    by (metis prod.exhaust)
  have pass: "simulationPass delta settings autoFood controls (state, orc) = (state9, orc3)"
    using p u r by (simp add: simulationPass_def Let_def state4_def state8_def)
  have "ants state9 = colony" "nest state9 = nest state6"
    using updateFoodRespawn_keeps [OF r] by (simp_all add: state8_def handleFoodDepletion_def Let_def)
  moreover have "nest state5 = nest state"
    using updateAntPopulation_keeps [OF p] by (simp add: state4_def)
  ultimately show ?thesis
    using that [of state5 orc1 state6 orc2] u pass by simp
qed

lemma createAnt_flags: "flagsConsistent (fst (createAnt ident pos spread jitter orc))"
  by (simp add: createAnt_def flagsConsistent_def split_def Let_def)

lemma initialAnts_all:
  assumes "\<And>ident pos spread jitter orc. P (fst (createAnt ident pos spread jitter orc))"
    and "list_all P colony"
  shows "list_all P (fst (initialAnts left i colony nestPosition orc))"
  using assms(2)
proof (induction left arbitrary: i colony orc)
  case 0
  then show ?case by simp
next
  case (Suc left)
  then show ?case
    using assms(1) by (simp add: split_def Let_def)
qed

lemma createInitialState_ants:
  assumes "\<And>ident pos spread jitter orc. P (fst (createAnt ident pos spread jitter orc))"
  shows "list_all P (ants (fst (createInitialState settings orc)))"
  using initialAnts_all [of P "[]", OF assms]
  by (simp add: createInitialState_def split_def Let_def)

text \<open>
  Claim C6. After every ant update, whatever the ant was before (the forced-return
  transition, a delivery at the nest and a pickup included), \<open>forceReturn\<close> holds only if
  \<open>carryingFood\<close> holds. So it holds of every ant after every update pass, and of every ant
  of the initial state: of every ant in every reachable state.
\<close>

theorem force_return_only_while_carrying:
  "flagsConsistent (fst (updateAnt ant state settings delta nestPosition orc)) \<and>
   list_all flagsConsistent (ants (fst (simulationPass delta settings autoFood controls (state, orc)))) \<and>
   list_all flagsConsistent (ants (fst (createInitialState settings orc))) \<and>
   flagsConsistent (fst (createAnt ident pos spread jitter orc))"
proof -
  have one: "flagsConsistent (fst (updateAnt ant state settings delta nestPosition orc))"
    for ant state nestPosition orc
    using updateAnt_flags [of ant state settings delta nestPosition orc] by (metis prod.collapse)
  obtain state5 orc1 state6 orc2 where
    "updateAnts (ants state5) [] state5 settings delta (nest_position (nest state5)) orc1
       = (ants (fst (simulationPass delta settings autoFood controls (state, orc))), state6, orc2)"
    by (rule simulationPass_ants)
  from updateAnts_invariant [where P = flagsConsistent and Q = "\<lambda>st. True", OF _ _ _ this]
  have "list_all flagsConsistent (ants (fst (simulationPass delta settings autoFood controls (state, orc))))"
    using updateAnt_flags by simp
  with one createAnt_flags createInitialState_ants [of flagsConsistent, OF createAnt_flags]
  show ?thesis
    by simp
qed

theorem force_return_only_while_carrying_witness:
  "forceReturn (fst (updateAnt (returningAnt 34.98 False) (demoState []) demoSettings 0.05
       \<lparr>vx = 60, vy = 40\<rparr> demoOracle)) \<and>
   carryingFood (fst (updateAnt (returningAnt 34.98 False) (demoState []) demoSettings 0.05
       \<lparr>vx = 60, vy = 40\<rparr> demoOracle))"
proof -
  have forced: "forceReturn (fst (updateAnt (returningAnt 34.98 False) (demoState []) demoSettings 0.05
       \<lparr>vx = 60, vy = 40\<rparr> demoOracle))"
    unfolding updateAnt_returning [OF carry_returning(2)]
    by (simp add: returningMoved_def returningAnt_def)
  from force_return_only_while_carrying
    [of "returningAnt 34.98 False" "demoState []" demoSettings "0.05" "\<lparr>vx = 60, vy = 40\<rparr>" demoOracle]
  have "flagsConsistent (fst (updateAnt (returningAnt 34.98 False) (demoState []) demoSettings 0.05
       \<lparr>vx = 60, vy = 40\<rparr> demoOracle))"
    by simp
  with forced show ?thesis
    by (simp add: flagsConsistent_def)
qed

section \<open>The ant update: the length of the path integration\<close>

lemma hypot_scale: "hypot (a * s) (b * s) = \<bar>s\<bar> * hypot a b"
proof -
  have "(a * s) * (a * s) + (b * s) * (b * s) = (s * s) * (a * a + b * b)"
    by (simp add: algebra_simps)
  then show ?thesis
    by (simp add: hypot_def real_sqrt_mult)
qed

lemma hypot_in_world:
  assumes "\<bar>a\<bar> \<le> 120" "\<bar>b\<bar> \<le> 80"
  shows "hypot a b \<le> 180"
proof -
  have "a\<^sup>2 \<le> 120\<^sup>2" "b\<^sup>2 \<le> 80\<^sup>2"
    using assms abs_le_square_iff [of a 120] abs_le_square_iff [of b 80] by simp_all
  then have "a * a + b * b \<le> 180\<^sup>2"
    by (simp add: power2_eq_square)
  then show ?thesis
    unfolding hypot_def by (intro real_le_lsqrt) auto
qed

lemma clamped_path:
  "hypot (vx (if hypot a b > 180 then \<lparr>vx = a * (180 / hypot a b), vy = b * (180 / hypot a b)\<rparr>
                else \<lparr>vx = a, vy = b\<rparr>))
         (vy (if hypot a b > 180 then \<lparr>vx = a * (180 / hypot a b), vy = b * (180 / hypot a b)\<rparr>
                else \<lparr>vx = a, vy = b\<rparr>)) \<le> 180"
proof (cases "hypot a b > 180")
  case True
  then have "\<bar>180 / hypot a b\<bar> * hypot a b = 180"
    by simp
  with True show ?thesis
    by (simp only: if_True Vector2.simps hypot_scale)
next
  case False
  then show ?thesis
    by simp
qed

lemma move_path:
  assumes "updateAnt_move ant settings delta nestPosition orc = (ant', moved, orc')"
  shows "pathWithinBound ant'"
proof -
  obtain ant1 moved1 orc1 where a: "advanceAntWithinWorld ant (antSpeed settings * delta) nestPosition orc
      = (ant1, moved1, orc1)"
    by (metis prod_cases3)
  define a1 where "a1 = vx (pathIntegration ant1) + (vx (position ant1) - vx (position ant))"
  define b1 where "b1 = vy (pathIntegration ant1) + (vy (position ant1) - vy (position ant))"
  from assms a have "pathIntegration ant'
      = (if hypot a1 b1 > 180 then \<lparr>vx = a1 * (180 / hypot a1 b1), vy = b1 * (180 / hypot a1 b1)\<rparr>
         else \<lparr>vx = a1, vy = b1\<rparr>)"
    by (auto simp: updateAnt_move_def Let_def world_def a1_def b1_def)
  with clamped_path [of a1 b1] show ?thesis
    by (simp add: pathWithinBound_def world_def)
qed

lemma transition_path:
  assumes t: "updateAnt_transition ant state settings (nest_position (nest state)) orc = (ant', state', orc')"
    and home: "nestWithinWorld (nest state)"
    and path: "pathWithinBound ant"
  shows "pathWithinBound ant'"
proof -
  have delivered: "hypot (vx (clampToWorld p) - vx (nest_position (nest state)))
      (vy (clampToWorld p) - vy (nest_position (nest state))) \<le> 180" for p
    using home
    by (intro hypot_in_world) (auto simp: clampToWorld_def nestWithinWorld_def world_def)
  have reset: "hypot (vx (position ant) - vx (nest_position (nest state)))
      (vy (position ant) - vy (nest_position (nest state))) \<le> 180"
    if "distance (position ant) (nest_position (nest state)) \<le> nest_radius (nest state)"
    using that home by (simp add: hypot_def distance_def Let_def nestWithinWorld_def world_def)
  from t path show ?thesis
    using delivered reset
    by (auto simp: updateAnt_transition_def pathWithinBound_def world_def Let_def
        split: if_splits option.splits prod.splits)
qed

lemma updateAnt_path:
  assumes update: "updateAnt ant state settings delta (nest_position (nest state)) orc = (ant', state', orc')"
    and home: "nestWithinWorld (nest state)"
  shows "pathWithinBound ant'"
proof -
  from update obtain ant2 orc1 ant3 moved orc2 ant4 orc3 ant5 state1 ant6 state2 where
    h: "updateAnt_heading (updateAnt_carry ant delta) state settings orc = (ant2, orc1)" and
    m: "updateAnt_move ant2 settings delta (nest_position (nest state)) orc1 = (ant3, moved, orc2)" and
    s: "updateAnt_stall ant3 moved delta (nest_position (nest state)) orc2 = (ant4, orc3)" and
    d: "updateAnt_deposit ant4 state settings delta = (ant5, state1)" and
    n: "updateAnt_nestSignal ant5 state1 delta = (ant6, state2)" and
    t: "updateAnt_transition ant6 state2 settings (nest_position (nest state)) orc3 = (ant', state', orc')"
    by (rule updateAnt_phases)
  obtain a5 where e5: "ant5 = ant4\<lparr>depositAccumulator := a5\<rparr>"
    by (rule that [OF deposit_shape [OF d]])
  obtain t6 a6 where e6: "ant6 = ant5\<lparr>nestSignalTimer := t6, nestSignalAccumulator := a6\<rparr>"
    by (rule that [OF nestSignal_shape [OF n]])
  from d have "nest state1 = nest state"
    by (auto simp: updateAnt_deposit_def Let_def split: if_splits)
  moreover from n have "nest state2 = nest state1"
    by (auto simp: updateAnt_nestSignal_def Let_def split: if_splits)
  ultimately have same: "nest state2 = nest state"
    by simp
  have "pathWithinBound ant6"
    using move_path [OF m] after_stall_fields(7) [OF h m s]
    by (simp add: pathWithinBound_def e6 e5)
  with t home show ?thesis
    using transition_path [of ant6 state2 settings orc3 ant' state' orc'] by (simp add: same)
qed

lemma createAnt_path: "pathWithinBound (fst (createAnt ident pos spread jitter orc))"
  by (simp add: createAnt_def pathWithinBound_def world_def split_def Let_def)

text \<open>
  Claim C8. With the nest inside the world (and its radius within the bound), the
  length of an ant's path-integration vector is at most 1.5 times the larger world
  dimension at the end of every update, whatever the vector was before: after the
  move and its clamp, after the reset at the nest, and after a delivery. So it holds of
  every ant after every update pass, and of every ant of the initial state, whose nest
  is inside the world; a pass keeps the nest.
\<close>

theorem path_integration_stays_bounded:
  assumes "nestWithinWorld (nest state)"
  shows "pathWithinBound (fst (updateAnt ant state settings delta (nest_position (nest state)) orc)) \<and>
    list_all pathWithinBound (ants (fst (simulationPass delta settings autoFood controls (state, orc)))) \<and>
    nest (fst (simulationPass delta settings autoFood controls (state, orc))) = nest state \<and>
    list_all pathWithinBound (ants (fst (createInitialState settings orc))) \<and>
    nestWithinWorld (nest (fst (createInitialState settings orc)))"
proof -
  have one: "pathWithinBound (fst (updateAnt ant state settings delta (nest_position (nest state)) orc))"
    using updateAnt_path [OF _ assms, of ant settings delta orc] by (metis prod.collapse)
  obtain state5 orc1 state6 orc2 where
    n5: "nest state5 = nest state" and
    u: "updateAnts (ants state5) [] state5 settings delta (nest_position (nest state5)) orc1
       = (ants (fst (simulationPass delta settings autoFood controls (state, orc))), state6, orc2)" and
    n6: "nest (fst (simulationPass delta settings autoFood controls (state, orc))) = nest state6"
    by (rule simulationPass_ants)
  have "list_all pathWithinBound (ants (fst (simulationPass delta settings autoFood controls (state, orc))))
      \<and> nest state6 = nest state"
  proof (rule updateAnts_invariant [where P = pathWithinBound and Q = "\<lambda>st. nest st = nest state"])
    fix a st o1 ant' state' o2
    assume q: "nest st = nest state"
      and run: "updateAnt a st settings delta (nest_position (nest state5)) o1 = (ant', state', o2)"
    from run have "updateAnt a st settings delta (nest_position (nest st)) o1 = (ant', state', o2)"
      by (simp add: q n5)
    from updateAnt_path [OF this] assms have "pathWithinBound ant'"
      by (simp add: q)
    with updateAnt_nest [OF run] q show "pathWithinBound ant' \<and> nest state' = nest state"
      by simp
  next
    show "nest state5 = nest state"
      by (rule n5)
    show "list_all pathWithinBound []"
      by simp
    show "updateAnts (ants state5) [] state5 settings delta (nest_position (nest state5)) orc1
       = (ants (fst (simulationPass delta settings autoFood controls (state, orc))), state6, orc2)"
      by (rule u)
  qed
  moreover have "nestWithinWorld (nest (fst (createInitialState settings orc)))"
    by (simp add: createInitialState_def nestWithinWorld_def world_def split_def Let_def)
  ultimately show ?thesis
    using one n6 createInitialState_ants [of pathWithinBound, OF createAnt_path] by simp
qed

theorem path_integration_stays_bounded_witness:
  "pathWithinBound (fst (updateAnt (returningAnt 12 False) (demoState []) demoSettings 0.05
       (nest_position (nest (demoState []))) demoOracle)) \<and>
   pathIntegration (fst (updateAnt (returningAnt 12 False) (demoState []) demoSettings 0.05
       (nest_position (nest (demoState []))) demoOracle)) = \<lparr>vx = 19.65, vy = 0\<rparr>"
proof -
  have home: "nestWithinWorld (nest (demoState []))"
    by (simp add: nestWithinWorld_def demoState_def world_def)
  have np: "nest_position (nest (demoState [])) = \<lparr>vx = 60, vy = 40\<rparr>"
    by (simp add: demoState_def)
  have "pathIntegration (fst (updateAnt (returningAnt 12 False) (demoState []) demoSettings 0.05
       (nest_position (nest (demoState []))) demoOracle)) = \<lparr>vx = 19.65, vy = 0\<rparr>"
    unfolding np updateAnt_returning [OF carry_returning(1)]
    by (simp add: returningMoved_def)
  with path_integration_stays_bounded [OF home] show ?thesis
    by simp
qed

section \<open>The ant update: the heading after a delivery\<close>

lemma sqrt3_bounds: "3 / 2 < sqrt 3" "sqrt 3 < 2"
proof -
  have "(3 / 2)\<^sup>2 < (3::real)"
    by (simp add: power2_eq_square)
  then show "3 / 2 < sqrt 3"
    by (rule real_less_rsqrt)
  have "(3::real) < 2\<^sup>2"
    by simp
  then show "sqrt 3 < 2"
    by (rule real_less_lsqrt [rotated 1]) simp
qed

lemma probe_rows: "\<lfloor>40 - sqrt 3 * 2\<rfloor> = 36" "\<lfloor>40 + sqrt 3 * 2\<rfloor> = 43"
  using sqrt3_bounds by (simp_all add: floor_eq_iff)

lemma trailGrid_probe:
  "sampleGridValue trailGrid \<lparr>vx = 58.15, vy = 40 - sqrt 3 * 2\<rparr> = Some 0.5"
  "sampleGridValue trailGrid \<lparr>vx = 60.15, vy = 40\<rparr> = Some 0"
  "sampleGridValue trailGrid \<lparr>vx = 58.15, vy = 40 + sqrt 3 * 2\<rparr> = Some 0"
  "sampleGridValue trailGrid \<lparr>vx = 55.8, vy = 40\<rparr> = Some 0"
  by (simp_all add: sampleGridValue_def sampleGridCell_def trailGrid_def createPheromoneGrid_eq
      probe_rows Let_def)

lemma outbound_at_the_nest:
  assumes "position ant = \<lparr>vx = 56.15, vy = 40\<rparr>" and "direction ant = 0"
  shows "samplePheromoneDirection ant trailGrid demoSettings None = Some (- (3 * pi / 19))"
proof -
  have samples: "probeSamples ant trailGrid None 0 4 [- (pi / 3), 0, pi / 3] = [(- (pi / 3), 0.5)]"
    using trailGrid_probe(1-3)
    by (simp add: assms Let_def cos_60 sin_60 algebra_simps)
  have "- pi \<le> - (pi / 3) - 0" "- (pi / 3) - 0 \<le> pi"
    using pi_gt_zero by linarith+
  then have "interpolateAngle 0 (- (pi / 3)) (9 / 19) = - (3 * pi / 19)"
    by (simp add: interpolateAngle_near)
  then show ?thesis
    unfolding samplePheromoneDirection_def Let_def
    by (simp only: Option.bind_lzero option.case samples) (simp add: assms demoSettings_def)
qed

lemma carry_arriving: "updateAnt_carry arrivingAnt 0.05 = arrivingAnt\<lparr>carryingTime := 12.05\<rparr>"
  by (simp add: updateAnt_carry_def arrivingAnt_def Let_def)

lemma heading_arriving:
  "updateAnt_heading (arrivingAnt\<lparr>carryingTime := 12.05\<rparr>) trailState demoSettings demoOracle
     = (arrivingAnt\<lparr>carryingTime := 12.05\<rparr>, demoOracle)"
  using trailGrid_probe(4)
  by (simp add: updateAnt_heading_def arrivingAnt_def trailState_def demoState_def demoSettings_def
      Let_def samplePheromoneDirection_empty)

lemma move_arriving:
  "updateAnt_move (arrivingAnt\<lparr>carryingTime := 12.05\<rparr>) demoSettings 0.05 \<lparr>vx = 60, vy = 40\<rparr> demoOracle
     = (arrivedAnt\<lparr>depositAccumulator := 0\<rparr>, 0.35, demoOracle)"
  by (simp add: updateAnt_move_def advanceAntWithinWorld_def advanceRetry_inside projectMove_def
      isInsideWorld_def distance_level world_def arrivingAnt_def arrivedAnt_def
      demoSettings_def Let_def)

lemma stall_arriving:
  "updateAnt_stall (arrivedAnt\<lparr>depositAccumulator := 0\<rparr>) 0.35 0.05 \<lparr>vx = 60, vy = 40\<rparr> demoOracle
     = (arrivedAnt\<lparr>depositAccumulator := 0\<rparr>, demoOracle)"
  by (simp add: updateAnt_stall_def arrivedAnt_def arrivingAnt_def)

lemma deposit_arriving:
  "updateAnt_deposit (arrivedAnt\<lparr>depositAccumulator := 0\<rparr>) trailState demoSettings 0.05
     = (arrivedAnt, trailState)"
  by (simp add: updateAnt_deposit_def arrivedAnt_def arrivingAnt_def Let_def)

lemma nestSignal_arriving:
  "updateAnt_nestSignal arrivedAnt trailState 0.05 = (arrivedAnt, trailState)"
  by (simp add: updateAnt_nestSignal_def arrivedAnt_def arrivingAnt_def)

lemma transition_arriving:
  "direction (fst (updateAnt_transition arrivedAnt trailState demoSettings \<lparr>vx = 60, vy = 40\<rparr> demoOracle))
     = - (3 * pi / 19)"
proof -
  define cleared where "cleared = arrivedAnt\<lparr>carryingFood := False, carryingTime := 0,
      forceReturn := False, nestSignalTimer := NEST_SIGNAL_DURATION, nestSignalAccumulator := 0\<rparr>"
  have out: "samplePheromoneDirection cleared trailGrid demoSettings None = Some (- (3 * pi / 19))"
    by (rule outbound_at_the_nest) (simp_all add: cleared_def arrivedAnt_def arrivingAnt_def)
  have carrying: "carryingFood arrivedAnt"
    by (simp add: arrivedAnt_def arrivingAnt_def)
  have near: "distance (position arrivedAnt) \<lparr>vx = 60, vy = 40\<rparr> \<le> nest_radius (nest trailState)"
    by (simp add: arrivedAnt_def trailState_def demoState_def distance_level)
  have food: "foodPheromones (trailState\<lparr>stats := (stats trailState)
      \<lparr>deliveredFood := deliveredFood (stats trailState) + 1\<rparr>\<rparr>) = trailGrid"
    by (simp add: trailState_def)
  show ?thesis
    unfolding updateAnt_transition_def Let_def
    by (simp only: carrying near if_True cleared_def [symmetric] food out option.case prod.case
        fst_conv) simp
qed

text \<open>
  Claim C5 fails on the delivery path that senses a food trail: an ant arriving at the
  nest from the west, heading 0, that senses food trail to its right on delivery leaves
  the update with a heading below 0, outside the interval from 0 to \<open>2 * pi\<close>.
\<close>

theorem delivery_leaves_direction_unwrapped:
  "direction (fst (updateAnt arrivingAnt trailState demoSettings 0.05 \<lparr>vx = 60, vy = 40\<rparr> demoOracle))
     = - (3 * pi / 19) \<and>
   direction (fst (updateAnt arrivingAnt trailState demoSettings 0.05 \<lparr>vx = 60, vy = 40\<rparr> demoOracle))
     < 0"
proof -
  have "updateAnt arrivingAnt trailState demoSettings 0.05 \<lparr>vx = 60, vy = 40\<rparr> demoOracle
    = updateAnt_transition arrivedAnt trailState demoSettings \<lparr>vx = 60, vy = 40\<rparr> demoOracle"
    by (simp only: updateAnt_def Let_def carry_arriving heading_arriving move_arriving
        stall_arriving deposit_arriving nestSignal_arriving prod.case)
  with transition_arriving show ?thesis
    by simp
qed

section \<open>The ant update: the nest signal of a fresh ant\<close>

lemma createAnt_timer:
  "nestSignalTimer (fst (createAnt ident pos spread jitter orc)) = NEST_SIGNAL_DURATION"
  by (simp add: createAnt_def split_def Let_def)

lemma nestSignal_timer:
  assumes "updateAnt_nestSignal ant state delta = (ant', state')" and "0 \<le> delta"
  shows "nestSignalTimer ant - delta \<le> nestSignalTimer ant' \<and> nestSignalTimer ant' \<le> max 0 (nestSignalTimer ant)"
  using assms by (auto simp: updateAnt_nestSignal_def Let_def split: if_splits)

lemma transition_timer:
  assumes "updateAnt_transition ant state settings nestPosition orc = (ant', state', orc')"
  shows "nestSignalTimer ant' = nestSignalTimer ant \<or> nestSignalTimer ant' = NEST_SIGNAL_DURATION"
  using assms
  by (auto simp: updateAnt_transition_def Let_def split: if_splits option.splits prod.splits)

lemma updateAnt_timer:
  assumes update: "updateAnt ant state settings delta nestPosition orc = (ant', state', orc')"
    and "0 \<le> delta" and "nestSignalTimer ant \<le> NEST_SIGNAL_DURATION"
  shows "nestSignalTimer ant - delta \<le> nestSignalTimer ant' \<and> nestSignalTimer ant' \<le> NEST_SIGNAL_DURATION"
proof -
  from update obtain ant2 orc1 ant3 moved orc2 ant4 orc3 ant5 state1 ant6 state2 where
    h: "updateAnt_heading (updateAnt_carry ant delta) state settings orc = (ant2, orc1)" and
    m: "updateAnt_move ant2 settings delta nestPosition orc1 = (ant3, moved, orc2)" and
    s: "updateAnt_stall ant3 moved delta nestPosition orc2 = (ant4, orc3)" and
    d: "updateAnt_deposit ant4 state settings delta = (ant5, state1)" and
    n: "updateAnt_nestSignal ant5 state1 delta = (ant6, state2)" and
    t: "updateAnt_transition ant6 state2 settings nestPosition orc3 = (ant', state', orc')"
    by (rule updateAnt_phases)
  obtain a5 where e5: "ant5 = ant4\<lparr>depositAccumulator := a5\<rparr>"
    by (rule that [OF deposit_shape [OF d]])
  have "nestSignalTimer ant5 = nestSignalTimer ant"
    using after_stall_fields(4) [OF h m s] by (simp add: e5)
  with nestSignal_timer [OF n assms(2)] transition_timer [OF t] assms(2,3) show ?thesis
    by auto
qed

lemma antRun_timer:
  assumes "list_all (\<lambda>c. 0 \<le> contextDelta c) contexts"
    and "nestSignalTimer ant \<le> NEST_SIGNAL_DURATION"
  shows "nestSignalTimer ant - simulatedTime contexts \<le> nestSignalTimer (antRun ant contexts)
    \<and> nestSignalTimer (antRun ant contexts) \<le> NEST_SIGNAL_DURATION"
  using assms
proof (induction contexts arbitrary: ant)
  case Nil
  then show ?case
    by (simp add: simulatedTime_def)
next
  case (Cons c contexts)
  obtain state settings delta nestPosition orc where c: "c = (state, settings, delta, nestPosition, orc)"
    by (metis prod_cases5)
  obtain ant' state' orc' where u: "updateAnt ant state settings delta nestPosition orc = (ant', state', orc')"
    by (metis prod_cases3)
  from Cons.prems(1) c have d: "0 \<le> delta" and rest: "list_all (\<lambda>c. 0 \<le> contextDelta c) contexts"
    by simp_all
  note one = updateAnt_timer [OF u d Cons.prems(2)]
  from Cons.IH [OF rest, of ant'] one show ?case
    by (simp add: c u simulatedTime_def)
qed

lemma deposit_signals:
  "updateAnt_deposit ant state settings delta = (ant', state') \<Longrightarrow> nestSignals state' = nestSignals state"
  by (auto simp: updateAnt_deposit_def Let_def split: if_splits)

lemma nest_signal_emission:
  assumes h: "updateAnt_heading (updateAnt_carry ant delta) state settings orc = (ant2, orc1)"
    and m: "updateAnt_move ant2 settings delta nestPosition orc1 = (ant3, moved, orc2)"
    and s: "updateAnt_stall ant3 moved delta nestPosition orc2 = (ant4, orc3)"
    and update: "updateAnt ant state settings delta nestPosition orc = (ant', state', orc')"
  shows "nestSignals state' =
    (if 0 < nestSignalTimer ant \<and> stalledTime ant4 < 0.3
        \<and> nestSignalAccumulator ant + delta \<ge> NEST_SIGNAL_DEPOSIT_INTERVAL
     then markNestSignal (nestSignals state) (position ant4)
            (NEST_SIGNAL_STRENGTH
               * of_int \<lfloor>(nestSignalAccumulator ant + delta) / NEST_SIGNAL_DEPOSIT_INTERVAL\<rfloor>)
     else nestSignals state)"
proof -
  note keep = after_stall_fields [OF h m s]
  obtain ant5 state1 where d: "updateAnt_deposit ant4 state settings delta = (ant5, state1)"
    by (metis prod.exhaust)
  obtain ant6 state2 where n: "updateAnt_nestSignal ant5 state1 delta = (ant6, state2)"
    by (metis prod.exhaust)
  from update have t: "updateAnt_transition ant6 state2 settings nestPosition orc3 = (ant', state', orc')"
    by (simp add: update_after_stall [OF h m s] d n)
  obtain a5 where e5: "ant5 = ant4\<lparr>depositAccumulator := a5\<rparr>"
    by (rule that [OF deposit_shape [OF d]])
  from n have "nestSignals state2 =
    (if 0 < nestSignalTimer ant \<and> stalledTime ant4 < 0.3
        \<and> nestSignalAccumulator ant + delta \<ge> NEST_SIGNAL_DEPOSIT_INTERVAL
     then markNestSignal (nestSignals state) (position ant4)
            (NEST_SIGNAL_STRENGTH
               * of_int \<lfloor>(nestSignalAccumulator ant + delta) / NEST_SIGNAL_DEPOSIT_INTERVAL\<rfloor>)
     else nestSignals state)"
    unfolding e5 using keep(4,5) deposit_signals [OF d]
    by (auto simp: updateAnt_nestSignal_def Let_def split: if_splits)
  with transition_grids [OF t] show ?thesis
    by simp
qed

lemma pushAnts_appended:
  assumes "\<And>ident pos spread jitter orc. P (fst (createAnt ident pos spread jitter orc))"
  shows "\<exists>fresh. fst (pushAnts left i colony nestPosition config orc) = colony @ fresh \<and> list_all P fresh"
proof (induction left arbitrary: i colony orc)
  case 0
  show ?case by simp
next
  case (Suc left)
  define made where "made = createAnt (int (length colony) + int i) nestPosition
      (angleSpread config) (directionJitter config) orc"
  from Suc [of "Suc i" "colony @ [fst made]" "snd made"] obtain fresh where
    "fst (pushAnts left (Suc i) (colony @ [fst made]) nestPosition config (snd made))
       = (colony @ [fst made]) @ fresh" "list_all P fresh"
    by blast
  then have "fst (pushAnts (Suc left) i colony nestPosition config orc) = colony @ (fst made # fresh)"
    "list_all P (fst made # fresh)"
    using assms by (simp_all add: made_def split_def Let_def)
  then show ?case
    by blast
qed

lemma updateAntPopulation_fresh:
  assumes "\<And>ident pos spread jitter orc. P (fst (createAnt ident pos spread jitter orc))"
  shows "list_all P (drop (length (ants state)) (ants (fst (updateAntPopulation state target config orc))))"
proof -
  obtain fresh where "fst (pushAnts (nat (target - int (length (ants state)))) 0 (ants state)
      (nest_position (nest state)) config orc) = ants state @ fresh" "list_all P fresh"
    using pushAnts_appended [of P, OF assms] by blast
  then show ?thesis
    by (simp add: updateAntPopulation_def Let_def split_def)
qed

lemma transition_stalled:
  "updateAnt_transition ant state settings nestPosition orc = (ant', state', orc') \<Longrightarrow>
   stalledTime ant' = stalledTime ant"
  by (auto simp: updateAnt_transition_def Let_def split: if_splits option.splits prod.splits)

lemma still_ant:
  assumes still: "antSpeed settings * delta \<le> 0"
    and update: "updateAnt ant state settings delta nestPosition orc = (ant', state', orc')"
  shows "stalledTime ant' = stalledTime ant + delta"
    and "0.3 \<le> stalledTime ant + delta \<Longrightarrow> nestSignals state' = nestSignals state"
proof -
  from update obtain ant2 orc1 ant3 moved orc2 ant4 orc3 ant5 state1 ant6 state2 where
    h: "updateAnt_heading (updateAnt_carry ant delta) state settings orc = (ant2, orc1)" and
    m: "updateAnt_move ant2 settings delta nestPosition orc1 = (ant3, moved, orc2)" and
    s: "updateAnt_stall ant3 moved delta nestPosition orc2 = (ant4, orc3)" and
    d: "updateAnt_deposit ant4 state settings delta = (ant5, state1)" and
    n: "updateAnt_nestSignal ant5 state1 delta = (ant6, state2)" and
    t: "updateAnt_transition ant6 state2 settings nestPosition orc3 = (ant', state', orc')"
    by (rule updateAnt_phases)
  obtain d2 where e2: "ant2 = (updateAnt_carry ant delta)\<lparr>direction := d2\<rparr>"
    by (rule that [OF heading_shape [OF h]])
  obtain d3 p3 i3 where e3: "ant3 = ant2\<lparr>direction := d3, position := p3, pathIntegration := i3\<rparr>"
    by (rule that [OF move_shape [OF m]])
  obtain a5 where e5: "ant5 = ant4\<lparr>depositAccumulator := a5\<rparr>"
    by (rule that [OF deposit_shape [OF d]])
  obtain t6 a6 where e6: "ant6 = ant5\<lparr>nestSignalTimer := t6, nestSignalAccumulator := a6\<rparr>"
    by (rule that [OF nestSignal_shape [OF n]])
  from m still have "moved = 0"
    by (auto simp: updateAnt_move_def advanceAntWithinWorld_def Let_def split: prod.splits)
  with s have "stalledTime ant4 = stalledTime ant3 + delta"
    by (auto simp: updateAnt_stall_def Let_def split: if_splits prod.splits)
  then have four: "stalledTime ant4 = stalledTime ant + delta"
    by (simp add: e3 e2 updateAnt_carry_def Let_def)
  with transition_stalled [OF t] show "stalledTime ant' = stalledTime ant + delta"
    by (simp add: e6 e5)
  show "nestSignals state' = nestSignals state" if "0.3 \<le> stalledTime ant + delta"
    using nest_signal_emission [OF h m s update] that four by simp
qed

lemma still_run:
  assumes "antSpeed settings * delta \<le> 0"
  shows "stalledTime (antRun ant (replicate k (state, settings, delta, nestPosition, orc)))
    = stalledTime ant + real k * delta"
proof (induction k arbitrary: ant)
  case 0
  show ?case by simp
next
  case (Suc k)
  have "stalledTime (fst (updateAnt ant state settings delta nestPosition orc)) = stalledTime ant + delta"
    using still_ant(1) [OF assms, of ant state nestPosition orc] by (metis prod.collapse)
  with Suc [of "fst (updateAnt ant state settings delta nestPosition orc)"] show ?case
    by (simp add: algebra_simps)
qed

text \<open>
  Claim C10, as amended. Every ant that \<open>createAnt\<close> makes (in the initial state and when
  the population grows) starts with \<open>nestSignalTimer\<close> at the full duration of 6 seconds.
  While less than 6 seconds of simulated time have passed, its timer is above 0, so
  although it has delivered no food, each of its updates runs the nest-signal block: in
  an update in which the ant is not stall-suppressed (its stall time after the move is
  below 0.3) and the accumulated time reaches 0.15, the nest-signal grid receives 0.45
  times the number of intervals elapsed at the ant's position; in an update in which it
  is stall-suppressed, or the interval has not elapsed, the grid is left as it was.
\<close>

theorem fresh_ant_emits_nest_signal_while_not_stalled:
  assumes created: "fresh = fst (createAnt ident pos spread jitter orc0)"
    and forward: "list_all (\<lambda>c. 0 \<le> contextDelta c) contexts"
    and early: "simulatedTime contexts < NEST_SIGNAL_DURATION"
    and ant: "ant = antRun fresh contexts"
    and heading: "updateAnt_heading (updateAnt_carry ant delta) state settings orc = (ant2, orc1)"
    and move: "updateAnt_move ant2 settings delta nestPosition orc1 = (ant3, moved, orc2)"
    and stall: "updateAnt_stall ant3 moved delta nestPosition orc2 = (ant4, orc3)"
    and update: "updateAnt ant state settings delta nestPosition orc = (ant', state', orc')"
  shows "nestSignalTimer fresh = NEST_SIGNAL_DURATION \<and> NEST_SIGNAL_DURATION = 6 \<and>
    0 < nestSignalTimer ant \<and>
    nestSignals state' =
      (if stalledTime ant4 < 0.3 \<and> nestSignalAccumulator ant + delta \<ge> NEST_SIGNAL_DEPOSIT_INTERVAL
       then markNestSignal (nestSignals state) (position ant4)
              (NEST_SIGNAL_STRENGTH
                 * of_int \<lfloor>(nestSignalAccumulator ant + delta) / NEST_SIGNAL_DEPOSIT_INTERVAL\<rfloor>)
       else nestSignals state) \<and>
    list_all (\<lambda>a. nestSignalTimer a = NEST_SIGNAL_DURATION) (ants (fst (createInitialState settings orc))) \<and>
    list_all (\<lambda>a. nestSignalTimer a = NEST_SIGNAL_DURATION)
      (drop (length (ants state)) (ants (fst (updateAntPopulation state target config orc))))"
proof -
  have timer: "nestSignalTimer fresh = NEST_SIGNAL_DURATION"
    unfolding created by (rule createAnt_timer)
  from antRun_timer [OF forward, of fresh] timer early have positive: "0 < nestSignalTimer ant"
    by (simp add: ant)
  from nest_signal_emission [OF heading move stall update] positive have
    "nestSignals state' =
      (if stalledTime ant4 < 0.3 \<and> nestSignalAccumulator ant + delta \<ge> NEST_SIGNAL_DEPOSIT_INTERVAL
       then markNestSignal (nestSignals state) (position ant4)
              (NEST_SIGNAL_STRENGTH
                 * of_int \<lfloor>(nestSignalAccumulator ant + delta) / NEST_SIGNAL_DEPOSIT_INTERVAL\<rfloor>)
       else nestSignals state)"
    by simp
  moreover have "list_all (\<lambda>a. nestSignalTimer a = NEST_SIGNAL_DURATION)
      (ants (fst (createInitialState settings orc)))"
    by (rule createInitialState_ants) (rule createAnt_timer)
  moreover have "list_all (\<lambda>a. nestSignalTimer a = NEST_SIGNAL_DURATION)
      (drop (length (ants state)) (ants (fst (updateAntPopulation state target config orc))))"
    by (rule updateAntPopulation_fresh) (rule createAnt_timer)
  ultimately show ?thesis
    using timer positive by simp
qed

text \<open>
  Claim C10 as stated fails for an ant that is stalled: with an ant speed of 0 a fresh
  ant never moves, its stall time reaches 0.3 after six updates, and from then on its
  updates (here the seventh, eighth and ninth, 0.15 seconds of simulated time) leave the
  nest-signal grid as it was, although its timer is still above 0 and less than half a
  second of its 6 seconds has passed.
\<close>

theorem stalled_fresh_ant_emits_nothing:
  "nestSignalTimer freshAnt = 6 \<and>
   simulatedTime (replicate 9 stillContext) < 6 \<and>
   0 < nestSignalTimer (antRun freshAnt (replicate 8 stillContext)) \<and>
   nestSignals (fst (snd (updateAnt (antRun freshAnt (replicate 6 stillContext)) (demoState [])
       (demoSettings\<lparr>antSpeed := 0\<rparr>) 0.05 \<lparr>vx = 60, vy = 40\<rparr> demoOracle))) = nestSignals (demoState []) \<and>
   nestSignals (fst (snd (updateAnt (antRun freshAnt (replicate 7 stillContext)) (demoState [])
       (demoSettings\<lparr>antSpeed := 0\<rparr>) 0.05 \<lparr>vx = 60, vy = 40\<rparr> demoOracle))) = nestSignals (demoState []) \<and>
   nestSignals (fst (snd (updateAnt (antRun freshAnt (replicate 8 stillContext)) (demoState [])
       (demoSettings\<lparr>antSpeed := 0\<rparr>) 0.05 \<lparr>vx = 60, vy = 40\<rparr> demoOracle))) = nestSignals (demoState [])"
proof -
  have still: "antSpeed (demoSettings\<lparr>antSpeed := 0\<rparr>) * 0.05 \<le> 0"
    by simp
  have timer: "nestSignalTimer freshAnt = 6"
    using createAnt_timer [of 0 "\<lparr>vx = 60, vy = 40\<rparr>" "pi / 12" "0.4" demoOracle]
    by (simp add: freshAnt_def)
  have time: "simulatedTime (replicate k stillContext) = real k * 0.05" for k
    by (induction k) (simp_all add: simulatedTime_def stillContext_def algebra_simps)
  have forward: "list_all (\<lambda>c. 0 \<le> contextDelta c) (replicate k stillContext)" for k
    by (simp add: list_all_iff stillContext_def)
  have positive: "0 < nestSignalTimer (antRun freshAnt (replicate 8 stillContext))"
    using antRun_timer [OF forward [of 8], of freshAnt] timer time [of 8] by simp
  have stalled: "stalledTime (antRun freshAnt (replicate k stillContext)) = real k * 0.05" for k
    using still_run [OF still, of freshAnt k "demoState []" "\<lparr>vx = 60, vy = 40\<rparr>" demoOracle]
    by (simp add: stillContext_def freshAnt_def createAnt_def split_def Let_def)
  have silent: "nestSignals (fst (snd (updateAnt (antRun freshAnt (replicate k stillContext)) (demoState [])
       (demoSettings\<lparr>antSpeed := 0\<rparr>) 0.05 \<lparr>vx = 60, vy = 40\<rparr> demoOracle))) = nestSignals (demoState [])"
    if "6 \<le> k" for k
  proof -
    have "0.3 \<le> stalledTime (antRun freshAnt (replicate k stillContext)) + 0.05"
      using that by (simp add: stalled)
    from still_ant(2) [OF still _ this] show ?thesis
      by (metis prod.collapse)
  qed
  from timer positive time [of 9] silent [of 6] silent [of 7] silent [of 8] show ?thesis
    by simp
qed

lemma freshAnt_eq: "freshAnt = walkerAnt 60 6 0 0"
  by (simp add: freshAnt_def createAnt_def walkerAnt_def split_def Let_def)

lemma carry_walker: "updateAnt_carry (walkerAnt x t d n) 0.05 = walkerAnt x t d n"
  by (simp add: updateAnt_carry_def walkerAnt_def)

lemma heading_walker:
  "updateAnt_heading (walkerAnt x t d n) (demoState sources) demoSettings demoOracle
     = (walkerAnt x t d n, demoOracle)"
  by (simp add: updateAnt_heading_def walkerAnt_def demoState_def demoSettings_def Let_def
      samplePheromoneDirection_empty)

lemma move_walker:
  assumes "0.4 \<le> x" "x \<le> 120"
  shows "updateAnt_move (walkerAnt x t d n) demoSettings 0.05 \<lparr>vx = 60, vy = 40\<rparr> demoOracle
     = (walkerAnt (x - 0.35) t d n, 0.35, demoOracle)"
proof -
  from assms have "\<not> 180 < \<bar>x - 1207 / 20\<bar>"
    by (simp add: abs_if)
  with assms show ?thesis
    by (simp add: updateAnt_move_def advanceAntWithinWorld_def advanceRetry_inside projectMove_def
        isInsideWorld_def distance_level world_def walkerAnt_def demoSettings_def
        getWorldCenter_def Let_def)
qed

lemma stall_walker:
  "updateAnt_stall (walkerAnt x t d n) 0.35 0.05 \<lparr>vx = 60, vy = 40\<rparr> demoOracle
     = (walkerAnt x t d n, demoOracle)"
  by (simp add: updateAnt_stall_def walkerAnt_def)

lemma deposit_walker:
  "updateAnt_deposit (walkerAnt x t 0 n) (demoState sources) demoSettings 0.05
     = (walkerAnt x t 0.05 n, demoState sources)"
  "updateAnt_deposit (walkerAnt x t 0.05 n) (demoState sources) demoSettings 0.05
     = (walkerAnt x t 0 n,
        (demoState sources)\<lparr>homePheromones :=
           depositPheromone createPheromoneGrid \<lparr>vx = x, vy = 40\<rparr> 0.55\<rparr>)"
  by (simp_all add: updateAnt_deposit_def walkerAnt_def demoState_def demoSettings_def Let_def)

lemma nestSignal_walker:
  assumes "0.05 \<le> t" "n + 0.05 < 0.15"
  shows "updateAnt_nestSignal (walkerAnt x t d n) state 0.05 = (walkerAnt x (t - 0.05) d (n + 0.05), state)"
  using assms by (simp add: updateAnt_nestSignal_def walkerAnt_def Let_def)

lemma transition_walker:
  assumes "foodSources state = []"
  shows "updateAnt_transition (walkerAnt x t d n) state demoSettings \<lparr>vx = 60, vy = 40\<rparr> demoOracle
     = (walkerAnt x t d n, state, demoOracle)"
  using assms
  by (simp add: updateAnt_transition_def findFoodSource_def walkerAnt_def Let_def)

lemma walker_steps:
  "updateAnt (walkerAnt 60 6 0 0) (demoState []) demoSettings 0.05 \<lparr>vx = 60, vy = 40\<rparr> demoOracle
     = (walkerAnt 59.65 5.95 0.05 0.05, demoState [], demoOracle)"
  "updateAnt (walkerAnt 59.65 5.95 0.05 0.05) (demoState []) demoSettings 0.05 \<lparr>vx = 60, vy = 40\<rparr> demoOracle
     = (walkerAnt 59.3 5.9 0 0.1,
        (demoState [])\<lparr>homePheromones :=
           depositPheromone createPheromoneGrid \<lparr>vx = 59.3, vy = 40\<rparr> 0.55\<rparr>,
        demoOracle)"
proof -
  have m1: "updateAnt_move (walkerAnt 60 6 0 0) demoSettings 0.05 \<lparr>vx = 60, vy = 40\<rparr> demoOracle
     = (walkerAnt 59.65 6 0 0, 0.35, demoOracle)"
    using move_walker [of 60 6 0 0] by simp
  have n1: "updateAnt_nestSignal (walkerAnt 59.65 6 0.05 0) (demoState []) 0.05
     = (walkerAnt 59.65 5.95 0.05 0.05, demoState [])"
    using nestSignal_walker [of 6 0 "59.65" "0.05" "demoState []"] by simp
  have t1: "updateAnt_transition (walkerAnt 59.65 5.95 0.05 0.05) (demoState []) demoSettings
      \<lparr>vx = 60, vy = 40\<rparr> demoOracle = (walkerAnt 59.65 5.95 0.05 0.05, demoState [], demoOracle)"
    by (rule transition_walker) (simp add: demoState_def)
  show "updateAnt (walkerAnt 60 6 0 0) (demoState []) demoSettings 0.05 \<lparr>vx = 60, vy = 40\<rparr> demoOracle
     = (walkerAnt 59.65 5.95 0.05 0.05, demoState [], demoOracle)"
    by (simp only: updateAnt_def Let_def carry_walker heading_walker m1 stall_walker
        deposit_walker(1) n1 t1 prod.case)
  define marked where "marked = (demoState [])\<lparr>homePheromones :=
           depositPheromone createPheromoneGrid \<lparr>vx = 59.3, vy = 40\<rparr> 0.55\<rparr>"
  have m2: "updateAnt_move (walkerAnt 59.65 5.95 0.05 0.05) demoSettings 0.05 \<lparr>vx = 60, vy = 40\<rparr> demoOracle
     = (walkerAnt 59.3 5.95 0.05 0.05, 0.35, demoOracle)"
    using move_walker [of "59.65" "5.95" "0.05" "0.05"] by simp
  have n2: "updateAnt_nestSignal (walkerAnt 59.3 5.95 0 0.05) marked 0.05
     = (walkerAnt 59.3 5.9 0 0.1, marked)"
    using nestSignal_walker [of "5.95" "0.05" "59.3" 0 marked] by simp
  have t2: "updateAnt_transition (walkerAnt 59.3 5.9 0 0.1) marked demoSettings
      \<lparr>vx = 60, vy = 40\<rparr> demoOracle = (walkerAnt 59.3 5.9 0 0.1, marked, demoOracle)"
    by (rule transition_walker) (simp add: marked_def demoState_def)
  show "updateAnt (walkerAnt 59.65 5.95 0.05 0.05) (demoState []) demoSettings 0.05 \<lparr>vx = 60, vy = 40\<rparr> demoOracle
     = (walkerAnt 59.3 5.9 0 0.1,
        (demoState [])\<lparr>homePheromones :=
           depositPheromone createPheromoneGrid \<lparr>vx = 59.3, vy = 40\<rparr> 0.55\<rparr>,
        demoOracle)"
    unfolding marked_def [symmetric]
    by (simp only: updateAnt_def Let_def carry_walker heading_walker m2 stall_walker
        deposit_walker(2) [of "59.3" "5.95" "0.05" "[]", folded marked_def] n2 t2 prod.case)
qed

lemma walker_run: "antRun freshAnt [walkContext, walkContext] = walkerAnt 59.3 5.9 0 0.1"
  by (simp only: freshAnt_eq walkContext_def antRun.simps walker_steps fst_conv)

theorem fresh_ant_emits_nest_signal_while_not_stalled_witness:
  "nestSignalTimer (antRun freshAnt [walkContext, walkContext]) = 5.9 \<and>
   nestSignals (fst (snd (updateAnt (antRun freshAnt [walkContext, walkContext]) (demoState [])
       demoSettings 0.05 \<lparr>vx = 60, vy = 40\<rparr> demoOracle)))
     = markNestSignal createPheromoneGrid \<lparr>vx = 58.95, vy = 40\<rparr> 0.45"
proof -
  have forward: "list_all (\<lambda>c. 0 \<le> contextDelta c) [walkContext, walkContext]"
    by (simp add: walkContext_def)
  have early: "simulatedTime [walkContext, walkContext] < NEST_SIGNAL_DURATION"
    by (simp add: simulatedTime_def walkContext_def)
  have heading: "updateAnt_heading (updateAnt_carry (walkerAnt 59.3 5.9 0 0.1) 0.05) (demoState [])
      demoSettings demoOracle = (walkerAnt 59.3 5.9 0 0.1, demoOracle)"
    by (simp only: carry_walker heading_walker)
  have move: "updateAnt_move (walkerAnt 59.3 5.9 0 0.1) demoSettings 0.05 \<lparr>vx = 60, vy = 40\<rparr> demoOracle
     = (walkerAnt 58.95 5.9 0 0.1, 0.35, demoOracle)"
    using move_walker [of "59.3" "5.9" 0 "0.1"] by simp
  have update: "updateAnt (walkerAnt 59.3 5.9 0 0.1) (demoState []) demoSettings 0.05
      \<lparr>vx = 60, vy = 40\<rparr> demoOracle
    = (fst (updateAnt (walkerAnt 59.3 5.9 0 0.1) (demoState []) demoSettings 0.05
         \<lparr>vx = 60, vy = 40\<rparr> demoOracle),
       fst (snd (updateAnt (walkerAnt 59.3 5.9 0 0.1) (demoState []) demoSettings 0.05
         \<lparr>vx = 60, vy = 40\<rparr> demoOracle)),
       snd (snd (updateAnt (walkerAnt 59.3 5.9 0 0.1) (demoState []) demoSettings 0.05
         \<lparr>vx = 60, vy = 40\<rparr> demoOracle)))"
    by simp
  note claim = fresh_ant_emits_nest_signal_while_not_stalled
    [OF freshAnt_def forward early walker_run [symmetric] heading move stall_walker update]
  have "nestSignals (demoState []) = createPheromoneGrid"
    by (simp add: demoState_def)
  with claim show ?thesis
    unfolding walker_run by (simp add: walkerAnt_def)
qed

end
